theory Spec2Isabelle
  imports Main
begin

section \<open>Streaming response assembler (content script, \<open>sendMessage\<close>)\<close>

text \<open>
  The read loop of \<open>sendMessage\<close> decodes each network chunk to text, splits that text
  on the newline character and handles every piece that starts with \<open>data: \<close>.  The
  payload of such a line is handed to \<open>JSON.parse\<close>; the loop then branches on the
  \<open>type\<close> field of the parsed object.

  \<open>JSON.parse\<close> is a function of the platform.  It enters the model as the parameter
  \<open>parse\<close>: \<open>None\<close> when the call (or the following field access) throws, and otherwise
  the event the four-way \<open>if\<close> chain of the loop sees.  Payload shapes follow the stream
  contract of the backend: text for \<open>token\<close> and \<open>error\<close>, an array of citations (each
  kept as its \<open>text\<close>) for \<open>sources\<close>.
\<close>

datatype sse_event =
    Token string
  | Sources "string list"
  | Done
  | Error string
  | Other

text \<open>
  The children of \<open>#rag-messages\<close>.  What an element shows is fixed by the arguments
  its markup was built from, so an element is kept as its identifier and those arguments.
\<close>

datatype view =
    Typing
  | StreamingText string
  | FinalAnswer string "string list"
  | UserText string
  | AssistantText string "string list"
  | SystemText string

record element =
  elem_id :: "string option"
  elem_view :: view

text \<open>\<open>None\<close>: the document has no \<open>#rag-messages\<close> container.\<close>

type_synonym messages = "element list option"

text \<open>
  \<open>document.getElementById(messageId)\<close>; a \<open>null\<close> identifier is looked up under
  its string form.
\<close>

definition js_id :: "string option \<Rightarrow> string" where
  "js_id mid = (case mid of None \<Rightarrow> ''null'' | Some s \<Rightarrow> s)"

definition has_id :: "string option \<Rightarrow> element \<Rightarrow> bool" where
  "has_id mid e = (elem_id e = Some (js_id mid))"

definition getElementById :: "messages \<Rightarrow> string option \<Rightarrow> element option" where
  "getElementById d mid =
     (case d of None \<Rightarrow> None | Some els \<Rightarrow> find (has_id mid) els)"

fun update_first :: "('a \<Rightarrow> bool) \<Rightarrow> ('a \<Rightarrow> 'a) \<Rightarrow> 'a list \<Rightarrow> 'a list" where
  "update_first p f [] = []"
| "update_first p f (x # xs) = (if p x then f x # xs else x # update_first p f xs)"

fun remove_first :: "('a \<Rightarrow> bool) \<Rightarrow> 'a list \<Rightarrow> 'a list" where
  "remove_first p [] = []"
| "remove_first p (x # xs) = (if p x then xs else x # remove_first p xs)"

definition createStreamingMessage :: "string \<Rightarrow> messages \<Rightarrow> string option \<times> messages" where
  "createStreamingMessage stamp d =
     (case d of
        None \<Rightarrow> (None, None)
      | Some els \<Rightarrow>
          (let messageId = ''streaming-'' @ stamp
           in (Some messageId,
               Some (els @ [\<lparr>elem_id = Some messageId, elem_view = Typing\<rparr>]))))"

definition updateStreamingMessage :: "messages \<Rightarrow> string option \<Rightarrow> string \<Rightarrow> messages" where
  "updateStreamingMessage d mid text =
     map_option (update_first (has_id mid) (\<lambda>e. e\<lparr>elem_view := StreamingText text\<rparr>)) d"

definition finalizeStreamingMessage ::
    "messages \<Rightarrow> string option \<Rightarrow> string \<Rightarrow> string list \<Rightarrow> messages" where
  "finalizeStreamingMessage d mid text srcs =
     map_option (update_first (has_id mid) (\<lambda>e. e\<lparr>elem_view := FinalAnswer text srcs\<rparr>)) d"

definition removeStreamingMessage :: "messages \<Rightarrow> string option \<Rightarrow> messages" where
  "removeStreamingMessage d mid = map_option (remove_first (has_id mid)) d"

definition addUserMessage :: "messages \<Rightarrow> string \<Rightarrow> messages" where
  "addUserMessage d message =
     map_option (\<lambda>els. els @ [\<lparr>elem_id = None, elem_view = UserText message\<rparr>]) d"

definition addAssistantMessage :: "messages \<Rightarrow> string \<Rightarrow> string list \<Rightarrow> messages" where
  "addAssistantMessage d message srcs =
     map_option (\<lambda>els. els @ [\<lparr>elem_id = None, elem_view = AssistantText message srcs\<rparr>]) d"

definition addSystemMessage :: "messages \<Rightarrow> string \<Rightarrow> messages" where
  "addSystemMessage d message =
     map_option (\<lambda>els. els @ [\<lparr>elem_id = None, elem_view = SystemText message\<rparr>]) d"

text \<open>The locals of one turn of \<open>sendMessage\<close>, with the message list they render into.\<close>

record turn =
  fullAnswer :: string
  sources :: "string list"
  dom :: messages

text \<open>The body of \<open>try\<close> in the read loop, after \<open>JSON.parse\<close> has returned.\<close>

fun handle_event :: "string option \<Rightarrow> turn \<Rightarrow> sse_event \<Rightarrow> turn" where
  "handle_event mid t (Token c) =
     (let fa = fullAnswer t @ c
      in t\<lparr>fullAnswer := fa, dom := updateStreamingMessage (dom t) mid fa\<rparr>)"
| "handle_event mid t (Sources s) = t\<lparr>sources := s\<rparr>"
| "handle_event mid t Done =
     t\<lparr>dom := finalizeStreamingMessage (dom t) mid (fullAnswer t) (sources t)\<rparr>"
| "handle_event mid t (Error c) =
     t\<lparr>dom := addAssistantMessage (removeStreamingMessage (dom t) mid) (''Error: '' @ c) []\<rparr>"
| "handle_event mid t Other = t"

definition run_events :: "string option \<Rightarrow> turn \<Rightarrow> sse_event list \<Rightarrow> turn" where
  "run_events mid t evs = foldl (handle_event mid) t evs"

text \<open>The turn after each event of a sequence, in order.\<close>

fun trace_events :: "string option \<Rightarrow> turn \<Rightarrow> sse_event list \<Rightarrow> turn list" where
  "trace_events mid t [] = []"
| "trace_events mid t (e # es) =
     (let t' = handle_event mid t e in t' # trace_events mid t' es)"

definition placeholder_view :: "string option \<Rightarrow> turn \<Rightarrow> view option" where
  "placeholder_view mid t = map_option elem_view (getElementById (dom t) mid)"

text \<open>\<open>chunk.split('\n')\<close>: the pieces between newlines, the last one possibly empty.\<close>

definition newline :: char where
  "newline = CHR 0x0A"

fun split_on :: "char \<Rightarrow> string \<Rightarrow> string list" where
  "split_on c [] = [[]]"
| "split_on c (x # xs) =
     (if x = c then [] # split_on c xs
      else (case split_on c xs of [] \<Rightarrow> [[x]] | l # ls \<Rightarrow> (x # l) # ls))"

definition process_line ::
    "(string \<Rightarrow> sse_event option) \<Rightarrow> string option \<Rightarrow> turn \<Rightarrow> string \<Rightarrow> turn" where
  "process_line parse mid t line =
     (if take 6 line = ''data: ''
      then (case parse (drop 6 line) of None \<Rightarrow> t | Some e \<Rightarrow> handle_event mid t e)
      else t)"

definition process_chunk ::
    "(string \<Rightarrow> sse_event option) \<Rightarrow> string option \<Rightarrow> turn \<Rightarrow> string \<Rightarrow> turn" where
  "process_chunk parse mid t chunk = foldl (process_line parse mid) t (split_on newline chunk)"

text \<open>The \<open>while (true)\<close> loop over the chunks the reader yields before it reports \<open>done\<close>.\<close>

definition read_stream ::
    "(string \<Rightarrow> sse_event option) \<Rightarrow> string option \<Rightarrow> turn \<Rightarrow> string list \<Rightarrow> turn" where
  "read_stream parse mid t chunks = foldl (process_chunk parse mid) t chunks"

text \<open>
  The start of a turn in \<open>sendMessage\<close>: the question is shown, the placeholder is
  created, and the two accumulators start empty.
\<close>

definition begin_turn :: "string \<Rightarrow> string \<Rightarrow> messages \<Rightarrow> string option \<times> turn" where
  "begin_turn stamp message d =
     (let (mid, d') = createStreamingMessage stamp (addUserMessage d message)
      in (mid, \<lparr>fullAnswer = [], sources = [], dom = d'\<rparr>))"

text \<open>Number of elements of the message list that carry the identifier.\<close>

definition id_count :: "messages \<Rightarrow> string option \<Rightarrow> nat" where
  "id_count d mid = (case d of None \<Rightarrow> 0 | Some els \<Rightarrow> length (filter (has_id mid) els))"

text \<open>A chunk that ends where a line ends: it is empty or its last character is a newline.\<close>

definition line_aligned :: "string \<Rightarrow> bool" where
  "line_aligned chunk = (chunk = [] \<or> last chunk = newline)"


section \<open>The page of a tab and the content script\<close>

text \<open>
  A conversation entry, and what the page's \<open>localStorage\<close> holds under a key.
  \<open>Json h\<close> stands for the text \<open>JSON.stringify(h)\<close>, which \<open>JSON.parse\<close> reads
  back as \<open>h\<close> (entries have string fields only); \<open>Garbage s\<close> is a text that
  \<open>JSON.parse\<close> rejects.  \<open>full\<close>: \<open>setItem\<close> throws (quota exceeded).
\<close>

record entry =
  question :: string
  answer :: string
  timestamp :: string

datatype stored = Json "entry list" | Garbage string

record page_storage =
  items :: "string \<rightharpoonup> stored"
  full :: bool

text \<open>
  An element with id \<open>rag-chat-panel\<close>: whether its style shows it, and the children of
  the \<open>#rag-messages\<close> node inside it.
\<close>

record panel =
  shown :: bool
  panel_messages :: "element list"

text \<open>
  The execution context the content script runs in, together with the fields of the one
  \<open>YouTubeRAGAssistant\<close> object the script can create there.
  \<open>scriptable\<close>: calls of \<open>chrome.scripting\<close> on the tab succeed (they reject on pages
  the extension may not touch).  \<open>window_flags\<close>: the globals of the context that are
  truthy.  \<open>panels\<close>: the elements with id \<open>rag-chat-panel\<close> in document order.
  The three counters count registrations: \<open>chrome.runtime.onMessage\<close> listeners,
  navigation observers, and the handlers wired by \<open>createChatPanel\<close>.
  \<open>process_video_reply\<close>: how a POST to \<open>/process_video\<close> from this page ends,
  \<open>None\<close> for an ok response and otherwise the message of the error that is caught
  (\<open>Failed to process video\<close> for a response that is not ok).
\<close>

record page =
  scriptable :: bool
  on_video_page :: bool
  url_v :: "string option"
  loading :: bool
  window_flags :: "string set"
  deferred_setups :: nat
  panels :: "panel list"
  stylesheets :: nat
  storage :: page_storage
  isInitialized :: bool
  chatPanel :: bool
  currentVideoId :: "string option"
  conversationHistory :: "entry list"
  isProcessing :: bool
  message_listeners :: nat
  video_listeners :: nat
  panel_setups :: nat
  process_video_reply :: "string option"

text \<open>
  An update of \<open>document.getElementById('rag-messages')\<close>, the container of the first
  panel; nothing happens when the document has no panel.
\<close>

definition with_messages :: "(messages \<Rightarrow> messages) \<Rightarrow> page \<Rightarrow> page" where
  "with_messages f p =
     (case panels p of
        [] \<Rightarrow> p
      | x # xs \<Rightarrow>
          (case f (Some (panel_messages x)) of
             None \<Rightarrow> p
           | Some els \<Rightarrow> p\<lparr>panels := x\<lparr>panel_messages := els\<rparr> # xs\<rparr>))"

text \<open>The key of the content script: \<open>`rag_conversation_${this.currentVideoId}`\<close>.\<close>

definition content_key :: "string option \<Rightarrow> string" where
  "content_key vid = ''rag_conversation_'' @ (case vid of None \<Rightarrow> ''null'' | Some v \<Rightarrow> v)"

definition restore_messages :: "entry list \<Rightarrow> messages \<Rightarrow> messages" where
  "restore_messages h d =
     foldl (\<lambda>d conv. addAssistantMessage (addUserMessage d (question conv)) (answer conv) []) d h"

definition loadConversationHistory :: "page \<Rightarrow> page" where
  "loadConversationHistory p =
     (case items (storage p) (content_key (currentVideoId p)) of
        None \<Rightarrow> p
      | Some (Garbage s) \<Rightarrow> p
      | Some (Json h) \<Rightarrow> with_messages (restore_messages h) (p\<lparr>conversationHistory := h\<rparr>))"

definition saveConversationHistory :: "page \<Rightarrow> page" where
  "saveConversationHistory p =
     (if full (storage p) then p
      else p\<lparr>storage := (storage p)\<lparr>items :=
             (items (storage p))(content_key (currentVideoId p) \<mapsto> Json (conversationHistory p))\<rparr>\<rparr>)"

text \<open>
  The end of a turn in \<open>sendMessage\<close>: the entry is pushed onto the history and the whole
  history is saved.
\<close>

definition append_entry :: "page \<Rightarrow> entry \<Rightarrow> page" where
  "append_entry p e = saveConversationHistory (p\<lparr>conversationHistory := conversationHistory p @ [e]\<rparr>)"

definition createChatPanel :: "page \<Rightarrow> page" where
  "createChatPanel p =
     (let remaining = (case panels p of [] \<Rightarrow> [] | existing # others \<Rightarrow> others)
      in loadConversationHistory
           (p\<lparr>panels := remaining @ [\<lparr>shown = True, panel_messages = []\<rparr>],
              chatPanel := True,
              panel_setups := panel_setups p + 1\<rparr>))"

text \<open>
  \<open>setup\<close>.  Its three exits register the same two listeners and set \<open>isInitialized\<close>;
  only the video page assigns \<open>currentVideoId\<close>.
\<close>

definition setup_assistant :: "page \<Rightarrow> page" where
  "setup_assistant p =
     (let p1 = createChatPanel p;
          p2 = (if on_video_page p1 then p1\<lparr>currentVideoId := url_v p1\<rparr> else p1)
      in p2\<lparr>video_listeners := video_listeners p2 + 1,
            message_listeners := message_listeners p2 + 1,
            isInitialized := True\<rparr>)"

definition init :: "page \<Rightarrow> page" where
  "init p = (if loading p then p\<lparr>deferred_setups := deferred_setups p + 1\<rparr> else setup_assistant p)"

definition constructor :: "page \<Rightarrow> page" where
  "constructor p =
     init (p\<lparr>isInitialized := False, chatPanel := False, currentVideoId := None,
             conversationHistory := [], isProcessing := False\<rparr>)"

text \<open>One execution of the content script file in the context of the page.\<close>

definition content_js :: "page \<Rightarrow> page" where
  "content_js p =
     (if ''YouTubeRAGAssistantLoaded'' \<in> window_flags p then p
      else constructor (p\<lparr>window_flags := insert ''YouTubeRAGAssistantLoaded'' (window_flags p)\<rparr>))"

text \<open>The document finishes loading: the callbacks \<open>init\<close> registered run.\<close>

definition DOMContentLoaded :: "page \<Rightarrow> page" where
  "DOMContentLoaded p = (setup_assistant ^^ deferred_setups p) (p\<lparr>loading := False, deferred_setups := 0\<rparr>)"

definition settled :: "page \<Rightarrow> page" where
  "settled p = (if loading p then DOMContentLoaded p else p)"

text \<open>
  Responses, as a tagged union of the shapes the two message listeners send:
  \<open>{connected}\<close>, \<open>{success: true}\<close>, \<open>{success: true, data}\<close>,
  \<open>{success: false, error}\<close>, \<open>{error}\<close> and \<open>{videoId}\<close>.
\<close>

record settings_data =
  darkMode :: bool
  autoProcess :: bool
  showSources :: bool
  backendUrl_setting :: string
  language_setting :: string

datatype payload = Body string | SettingsOf settings_data | HistoryOf "entry list"

datatype response =
    Connected bool
  | Success
  | SuccessData payload
  | Failure string
  | ErrorOnly string
  | VideoIdIs "string option"

definition show_first :: "page \<Rightarrow> page" where
  "show_first p = (case panels p of [] \<Rightarrow> p | x # xs \<Rightarrow> p\<lparr>panels := x\<lparr>shown := True\<rparr> # xs\<rparr>)"

text \<open>
  \<open>togglePanel\<close> of the content script.  The timers of the source only re-apply the
  visible style and move the focus; they are taken as having run.
\<close>

definition togglePanel :: "page \<Rightarrow> page" where
  "togglePanel p =
     (if \<not> chatPanel p \<or> panels p = [] then show_first (createChatPanel p)
      else (case panels p of
              [] \<Rightarrow> p
            | x # xs \<Rightarrow> p\<lparr>panels := x\<lparr>shown := \<not> shown x\<rparr> # xs\<rparr>))"

text \<open>
  \<open>processCurrentVideo\<close>.  Nothing happens without a video id or while another request
  is in flight.  Otherwise the backend is asked to process the video: on an ok response
  a system message reports the success and, 500 ms later, \<open>togglePanel\<close> runs; on any
  error a system message reports the failure.  \<open>isProcessing\<close> is set during the call
  and cleared at its end.  The two messages start with a check mark (U+2705) and a cross
  mark (U+274C), written here as their UTF-8 bytes.  The status line, which the function
  also updates, is not part of the page record.
\<close>

definition processCurrentVideo :: "page \<Rightarrow> page" where
  "processCurrentVideo p =
     (if currentVideoId p = None \<or> currentVideoId p = Some [] \<or> isProcessing p then p
      else (case process_video_reply p of
              None \<Rightarrow>
                togglePanel
                  (with_messages
                     (\<lambda>d. addSystemMessage d
                        ([CHR 0xE2, CHR 0x9C, CHR 0x85]
                         @ '' Video processed successfully! I can now answer questions about this video.''))
                     (p\<lparr>isProcessing := False\<rparr>))
            | Some msg \<Rightarrow>
                with_messages
                  (\<lambda>d. addSystemMessage d
                     ([CHR 0xE2, CHR 0x9D, CHR 0x8C] @ '' Failed to process video: '' @ msg))
                  (p\<lparr>isProcessing := False\<rparr>)))"

text \<open>
  The listener registered by \<open>setupMessageListener\<close>: the response and the page after
  it.  The response to \<open>processVideo\<close> is sent without waiting for
  \<open>processCurrentVideo\<close>; the page is the one after that call has ended.
\<close>

definition content_onMessage :: "page \<Rightarrow> string \<Rightarrow> response \<times> page" where
  "content_onMessage p a =
     (if a = ''togglePanel'' then (Success, togglePanel p)
      else if a = ''processVideo'' then (Success, processCurrentVideo p)
      else if a = ''getVideoId'' then (VideoIdIs (currentVideoId p), p)
      else if a = ''tabActivated''
        then (Success, if \<not> isInitialized p then setup_assistant p else p)
      else (Failure ''Unknown action'', p))"

text \<open>
  \<open>chrome.tabs.sendMessage\<close> to the tab: \<open>None\<close> when no listener is registered there
  (\<open>chrome.runtime.lastError\<close> is set), otherwise what the listener does.
\<close>

definition tabs_sendMessage :: "page \<Rightarrow> string \<Rightarrow> (response \<times> page) option" where
  "tabs_sendMessage p a =
     (if message_listeners p = 0 then None else Some (content_onMessage p a))"

definition handleVideoChange :: "page \<Rightarrow> page" where
  "handleVideoChange p =
     (if \<not> on_video_page p then p
      else if url_v p \<noteq> currentVideoId p then
        (let p1 = p\<lparr>currentVideoId := url_v p, conversationHistory := []\<rparr>;
             p2 = (if chatPanel p1 then with_messages (\<lambda>d. Some []) p1 else p1)
         in show_first p2)
      else p)"

text \<open>Events of the page other than script injection.\<close>

definition spa_navigate :: "page \<Rightarrow> bool \<Rightarrow> string option \<Rightarrow> page" where
  "spa_navigate p onv v =
     (let p1 = p\<lparr>on_video_page := onv, url_v := v\<rparr>
      in if video_listeners p1 = 0 then p1 else handleVideoChange p1)"

definition close_panel :: "page \<Rightarrow> page" where
  "close_panel p =
     (if chatPanel p \<and> panels p \<noteq> [] then p\<lparr>panels := butlast (panels p), chatPanel := False\<rparr>
      else p)"

text \<open>
  A document that has just been loaded; the backend is reachable until something says
  otherwise.
\<close>

definition new_document :: "bool \<Rightarrow> bool \<Rightarrow> string option \<Rightarrow> bool \<Rightarrow> page_storage \<Rightarrow> page" where
  "new_document sc onv v ld st =
     \<lparr>scriptable = sc, on_video_page = onv, url_v = v, loading = ld, window_flags = {},
      deferred_setups = 0, panels = [], stylesheets = 0, storage = st,
      isInitialized = False, chatPanel = False, currentVideoId = None,
      conversationHistory = [], isProcessing = False, message_listeners = 0,
      video_listeners = 0, panel_setups = 0, process_video_reply = None\<rparr>"


section \<open>The background service: injection and the panel toggle\<close>

text \<open>What the service does that others can observe, in the order it happens.\<close>

datatype console =
    LogNotInitialized
  | LogInjected
  | LogAlreadyActive
  | LogToggleSent
  | LogToggledAfterRetry
  | WarnNotReady
  | ErrorProbe
  | ErrorInject
  | ErrorRetryFailed

datatype cevent =
    ExecuteProbe string
  | ExecuteFile string
  | InsertCSS string
  | PageLoadCall
  | TabsSendMessage string
  | SetTimeout nat
  | Console console
  | StorageSyncSet
  | HealthCheck string bool
  | SendResponse response

text \<open>
  \<open>handleYouTubePageLoad\<close>: probe for the panel, then inject the script and the style
  sheet, in this order; any rejection is caught and logged.
\<close>

definition handleYouTubePageLoad :: "page \<Rightarrow> page \<times> cevent list" where
  "handleYouTubePageLoad p =
     (if \<not> scriptable p
        then (p, [PageLoadCall, ExecuteProbe ''rag-chat-panel'', Console ErrorInject])
      else if panels p \<noteq> []
        then (p, [PageLoadCall, ExecuteProbe ''rag-chat-panel'', Console LogAlreadyActive])
      else (let p1 = content_js p;
                p2 = p1\<lparr>stylesheets := stylesheets p1 + 1\<rparr>
            in (p2, [PageLoadCall, ExecuteProbe ''rag-chat-panel'', ExecuteFile ''content.js'',
                     InsertCSS ''styles.css'', Console LogInjected])))"

definition ensureContentScriptInjected :: "page \<Rightarrow> page \<times> cevent list" where
  "ensureContentScriptInjected p =
     (if \<not> scriptable p
        then (p, [ExecuteProbe ''YouTubeRAGAssistantInitialized'', Console ErrorProbe])
      else if ''YouTubeRAGAssistantInitialized'' \<in> window_flags p
        then (p, [ExecuteProbe ''YouTubeRAGAssistantInitialized''])
      else (let (p1, l) = handleYouTubePageLoad p
            in (p1, [ExecuteProbe ''YouTubeRAGAssistantInitialized'', Console LogNotInitialized] @ l)))"

definition toggleChatPanel :: "page \<Rightarrow> page \<times> cevent list" where
  "toggleChatPanel p =
     (let (p1, l1) = ensureContentScriptInjected p
      in case tabs_sendMessage p1 ''togglePanel'' of
           Some (resp, p2) \<Rightarrow> (p2, l1 @ [TabsSendMessage ''togglePanel'', Console LogToggleSent])
         | None \<Rightarrow>
             (let (p3, l3) = handleYouTubePageLoad p1;
                  first = l1 @ [TabsSendMessage ''togglePanel'', Console WarnNotReady] @ l3
                            @ [SetTimeout 500, TabsSendMessage ''togglePanel'']
              in case tabs_sendMessage p3 ''togglePanel'' of
                   Some (retryResp, p4) \<Rightarrow> (p4, first @ [Console LogToggledAfterRetry])
                 | None \<Rightarrow> (p3, first @ [Console ErrorRetryFailed])))"

text \<open>
  Everything that can happen to the page of a tab: the script file is executed there,
  the document finishes loading, a runtime message arrives, the service runs its
  injection procedure or its toggle, the user closes the panel, the page changes its URL
  in place, a new document is loaded, a turn ends and is recorded, the backend changes
  how it answers.
\<close>

datatype page_op =
    RunContentScript
  | DocumentLoaded
  | Receive string
  | PageLoad
  | Toggle
  | ClosePanel
  | SpaNavigate bool "string option"
  | LoadDocument bool bool "string option" bool
  | AppendEntry entry
  | BackendReply "string option"

fun apply_op :: "page \<Rightarrow> page_op \<Rightarrow> page" where
  "apply_op p RunContentScript = content_js p"
| "apply_op p DocumentLoaded = settled p"
| "apply_op p (Receive a) = (case tabs_sendMessage p a of None \<Rightarrow> p | Some (r, p') \<Rightarrow> p')"
| "apply_op p PageLoad = fst (handleYouTubePageLoad p)"
| "apply_op p Toggle = fst (toggleChatPanel p)"
| "apply_op p ClosePanel = close_panel p"
| "apply_op p (SpaNavigate onv v) = spa_navigate p onv v"
| "apply_op p (LoadDocument sc onv v ld) = new_document sc onv v ld (storage p)"
| "apply_op p (AppendEntry e) = append_entry p e"
| "apply_op p (BackendReply r) = p\<lparr>process_video_reply := r\<rparr>"

definition run_ops :: "page \<Rightarrow> page_op list \<Rightarrow> page" where
  "run_ops p ops = foldl apply_op p ops"


section \<open>The background service: message dispatch\<close>

text \<open>
  A settings object: each of the five keys is present or not.  The same shape serves for
  the \<open>settings\<close> field of a request and for the items of \<open>chrome.storage.sync\<close>.
\<close>

record settings_update =
  set_darkMode :: "bool option"
  set_autoProcess :: "bool option"
  set_showSources :: "bool option"
  set_backendUrl :: "string option"
  set_language :: "string option"

definition merge_items :: "settings_update \<Rightarrow> settings_update \<Rightarrow> settings_update" where
  "merge_items old new =
     \<lparr>set_darkMode = (case set_darkMode new of None \<Rightarrow> set_darkMode old | Some v \<Rightarrow> Some v),
      set_autoProcess = (case set_autoProcess new of None \<Rightarrow> set_autoProcess old | Some v \<Rightarrow> Some v),
      set_showSources = (case set_showSources new of None \<Rightarrow> set_showSources old | Some v \<Rightarrow> Some v),
      set_backendUrl = (case set_backendUrl new of None \<Rightarrow> set_backendUrl old | Some v \<Rightarrow> Some v),
      set_language = (case set_language new of None \<Rightarrow> set_language old | Some v \<Rightarrow> Some v)\<rparr>"

text \<open>
  The service object with the two storage areas of the extension, the pages of the
  tabs, and the record of what the service did.
\<close>

record world =
  backendUrl :: string
  isBackendConnected :: bool
  sync_items :: settings_update
  local_items :: "string \<rightharpoonup> entry list"
  tabs :: "nat \<Rightarrow> page"
  trace :: "cevent list"

text \<open>
  What the platform answers during one dispatch.  \<open>health url\<close>: \<open>None\<close> when the
  request succeeds, otherwise the message of the error \<open>makeRequest\<close> throws.
  \<open>backend url\<close>: the error message or the body.  \<open>storage_fault\<close>: the message of
  the error a \<open>chrome.storage\<close> call throws, if it throws; \<open>query_fault\<close> likewise for
  \<open>chrome.tabs.query\<close>.  \<open>active_tab\<close>: the id of the first tab the query returns.
\<close>

record env =
  health :: "string \<Rightarrow> string option"
  backend :: "string \<Rightarrow> string + string"
  storage_fault :: "string option"
  query_fault :: "string option"
  active_tab :: "nat option"

record request =
  action :: string
  videoId :: "string option"
  language :: "string option"
  req_question :: "string option"
  settings :: settings_update

definition respond :: "response \<Rightarrow> world \<Rightarrow> world" where
  "respond r w = w\<lparr>trace := trace w @ [SendResponse r]\<rparr>"

definition responses :: "cevent list \<Rightarrow> response list" where
  "responses l = concat (map (\<lambda>e. case e of SendResponse r \<Rightarrow> [r] | _ \<Rightarrow> []) l)"

definition checkBackendConnection :: "env \<Rightarrow> world \<Rightarrow> bool \<times> world" where
  "checkBackendConnection en w =
     (let url = backendUrl w @ ''/health''
      in case health en url of
           None \<Rightarrow> (True, w\<lparr>isBackendConnected := True, trace := trace w @ [HealthCheck url True]\<rparr>)
         | Some msg \<Rightarrow>
             (False, w\<lparr>isBackendConnected := False, trace := trace w @ [HealthCheck url False]\<rparr>))"

text \<open>The common body of \<open>processVideo\<close>, \<open>askQuestion\<close> and \<open>getVideoInfo\<close>.\<close>

definition backend_call :: "env \<Rightarrow> world \<Rightarrow> string \<Rightarrow> response" where
  "backend_call en w url =
     (if \<not> isBackendConnected w then Failure ''Backend not connected''
      else (case backend en url of
              Inl msg \<Rightarrow> Failure msg
            | Inr body \<Rightarrow> SuccessData (Body body)))"

definition processVideo :: "env \<Rightarrow> world \<Rightarrow> response" where
  "processVideo en w = backend_call en w (backendUrl w @ ''/process_video'')"

definition askQuestion :: "env \<Rightarrow> world \<Rightarrow> response" where
  "askQuestion en w = backend_call en w (backendUrl w @ ''/ask_question'')"

definition getVideoInfo :: "env \<Rightarrow> world \<Rightarrow> string option \<Rightarrow> response" where
  "getVideoInfo en w vid =
     backend_call en w
       (backendUrl w @ ''/video/'' @ (case vid of None \<Rightarrow> ''undefined'' | Some v \<Rightarrow> v) @ ''/summary'')"

text \<open>
  The four handlers that talk to \<open>chrome.storage\<close>.  Each returns a promise built
  around the storage call; an error thrown by that call rejects the promise, which the
  handler's own \<open>try\<close> does not see, so the error reaches the caller (\<open>Inl\<close>).
\<close>

definition getSettings :: "env \<Rightarrow> world \<Rightarrow> string + response" where
  "getSettings en w =
     (case storage_fault en of
        Some msg \<Rightarrow> Inl msg
      | None \<Rightarrow>
          (let st = sync_items w
           in Inr (SuccessData (SettingsOf
                \<lparr>darkMode = (set_darkMode st = Some True),
                 autoProcess = (set_autoProcess st = Some True),
                 showSources = (set_showSources st \<noteq> Some False),
                 backendUrl_setting =
                   (case set_backendUrl st of
                      None \<Rightarrow> ''http://localhost:8000''
                    | Some u \<Rightarrow> if u = [] then ''http://localhost:8000'' else u),
                 language_setting =
                   (case set_language st of
                      None \<Rightarrow> ''en''
                    | Some l \<Rightarrow> if l = [] then ''en'' else l)\<rparr>))))"

definition updateSettings :: "env \<Rightarrow> world \<Rightarrow> settings_update \<Rightarrow> string + world" where
  "updateSettings en w st =
     (case storage_fault en of
        Some msg \<Rightarrow> Inl msg
      | None \<Rightarrow>
          (let w1 = w\<lparr>sync_items := merge_items (sync_items w) st,
                      trace := trace w @ [StorageSyncSet]\<rparr>
           in case set_backendUrl st of
                None \<Rightarrow> Inr w1
              | Some u \<Rightarrow>
                  if u = [] then Inr w1
                  else Inr (snd (checkBackendConnection en (w1\<lparr>backendUrl := u\<rparr>)))))"

text \<open>The key of the service: \<open>`conversation_${videoId}`\<close>.\<close>

definition coordinator_key :: "string option \<Rightarrow> string" where
  "coordinator_key vid = ''conversation_'' @ (case vid of None \<Rightarrow> ''undefined'' | Some v \<Rightarrow> v)"

definition getConversationHistory :: "env \<Rightarrow> world \<Rightarrow> string option \<Rightarrow> string + response" where
  "getConversationHistory en w vid =
     (case storage_fault en of
        Some msg \<Rightarrow> Inl msg
      | None \<Rightarrow>
          Inr (SuccessData (HistoryOf
                (case local_items w (coordinator_key vid) of None \<Rightarrow> [] | Some h \<Rightarrow> h))))"

definition clearConversationHistory :: "env \<Rightarrow> world \<Rightarrow> string option \<Rightarrow> string + world" where
  "clearConversationHistory en w vid =
     (case storage_fault en of
        Some msg \<Rightarrow> Inl msg
      | None \<Rightarrow> Inr (w\<lparr>local_items := (local_items w)(coordinator_key vid := None)\<rparr>))"

text \<open>A tab id as a condition: \<open>undefined\<close>, \<open>null\<close> and \<open>0\<close> are falsy.\<close>

definition truthy_id :: "nat option \<Rightarrow> nat option" where
  "truthy_id x = (case x of None \<Rightarrow> None | Some n \<Rightarrow> if n = 0 then None else Some n)"

definition toggle_tab :: "world \<Rightarrow> nat \<Rightarrow> world" where
  "toggle_tab w tid =
     (let (p', l) = toggleChatPanel (tabs w tid)
      in w\<lparr>tabs := (tabs w)(tid := p'), trace := trace w @ l\<rparr>)"

text \<open>
  The \<open>switch\<close> of \<open>handleMessage\<close>.  \<open>Inl (msg, w')\<close>: an awaited handler threw
  \<open>msg\<close> with the service in state \<open>w'\<close>.  The service does not await
  \<open>toggleChatPanel\<close>: it answers before any step of the toggle has returned, so the
  response precedes the toggle in the record.
\<close>

definition dispatch :: "env \<Rightarrow> world \<Rightarrow> request \<Rightarrow> nat option \<Rightarrow> (string \<times> world) + world" where
  "dispatch en w req sender =
     (if action req = ''checkBackendConnection'' then
        (let (isConnected, w1) = checkBackendConnection en w
         in Inr (respond (Connected isConnected) w1))
      else if action req = ''processVideo'' then Inr (respond (processVideo en w) w)
      else if action req = ''askQuestion'' then Inr (respond (askQuestion en w) w)
      else if action req = ''getVideoInfo'' then Inr (respond (getVideoInfo en w (videoId req)) w)
      else if action req = ''togglePanel'' then
        (case truthy_id sender of
           Some senderTabId \<Rightarrow> Inr (toggle_tab (respond Success w) senderTabId)
         | None \<Rightarrow>
             (case query_fault en of
                Some msg \<Rightarrow> Inr (respond (Failure msg) w)
              | None \<Rightarrow>
                  (case truthy_id (active_tab en) of
                     Some activeTabId \<Rightarrow> Inr (toggle_tab (respond Success w) activeTabId)
                   | None \<Rightarrow> Inr (respond (Failure ''No active tab found'') w))))
      else if action req = ''getSettings'' then
        (case getSettings en w of
           Inl msg \<Rightarrow> Inl (msg, w)
         | Inr r \<Rightarrow> Inr (respond r w))
      else if action req = ''updateSettings'' then
        (case updateSettings en w (settings req) of
           Inl msg \<Rightarrow> Inl (msg, w)
         | Inr w1 \<Rightarrow> Inr (respond Success w1))
      else if action req = ''getConversationHistory'' then
        (case getConversationHistory en w (videoId req) of
           Inl msg \<Rightarrow> Inl (msg, w)
         | Inr r \<Rightarrow> Inr (respond r w))
      else if action req = ''clearConversationHistory'' then
        (case clearConversationHistory en w (videoId req) of
           Inl msg \<Rightarrow> Inl (msg, w)
         | Inr w1 \<Rightarrow> Inr (respond Success w1))
      else Inr (respond (ErrorOnly ''Unknown action'') w))"

text \<open>\<open>handleMessage\<close>: the \<open>switch\<close> inside \<open>try\<close>, and the \<open>catch\<close> around it.\<close>

definition handleMessage :: "env \<Rightarrow> world \<Rightarrow> request \<Rightarrow> nat option \<Rightarrow> world" where
  "handleMessage en w req sender =
     (case dispatch en w req sender of
        Inl (msg, w') \<Rightarrow> respond (ErrorOnly msg) w'
      | Inr w' \<Rightarrow> w')"

definition recognized_actions :: "string list" where
  "recognized_actions =
     [''checkBackendConnection'', ''processVideo'', ''askQuestion'', ''getVideoInfo'',
      ''togglePanel'', ''getSettings'', ''updateSettings'', ''getConversationHistory'',
      ''clearConversationHistory'']"


section \<open>Sample states\<close>

text \<open>
  Concrete states at which the theorems below are instantiated: a freshly loaded watch
  page of the video \<open>abc123\<close> (scriptable or not), a platform with the backend
  unreachable and no other fault, a service that has just started, and a request that
  carries nothing but its action.
\<close>

definition blank_page :: "bool \<Rightarrow> page" where
  "blank_page sc = new_document sc True (Some ''abc123'') False \<lparr>items = Map.empty, full = False\<rparr>"

definition offline_env :: env where
  "offline_env =
     \<lparr>health = (\<lambda>url. Some ''Failed to fetch''), backend = (\<lambda>url. Inl ''Failed to fetch''),
      storage_fault = None, query_fault = None, active_tab = None\<rparr>"

definition blank_world :: "bool \<Rightarrow> world" where
  "blank_world sc =
     \<lparr>backendUrl = ''http://localhost:8000'', isBackendConnected = False,
      sync_items = \<lparr>set_darkMode = None, set_autoProcess = None, set_showSources = None,
                    set_backendUrl = None, set_language = None\<rparr>,
      local_items = Map.empty, tabs = (\<lambda>tid. blank_page sc), trace = []\<rparr>"

definition bare_request :: "string \<Rightarrow> request" where
  "bare_request a =
     \<lparr>action = a, videoId = None, language = None, req_question = None,
      settings = \<lparr>set_darkMode = None, set_autoProcess = None, set_showSources = None,
                  set_backendUrl = None, set_language = None\<rparr>\<rparr>"


text \<open>The watch page after its content script has run and the user has closed the panel.\<close>

definition closed_page :: page where
  "closed_page = close_panel (content_js (blank_page True))"

text \<open>
  One conversation entry, and the service next to a tab whose content script has loaded on
  the watch page of \<open>abc123\<close> and appended that entry.
\<close>

definition sample_entry :: entry where
  "sample_entry = \<lparr>question = ''What is this about?'', answer = ''A talk.'', timestamp = ''2024-01-01T00:00:00.000Z''\<rparr>"

definition watching_world :: world where
  "watching_world =
     (blank_world True)\<lparr>tabs := (\<lambda>tid. append_entry (content_js (blank_page True)) sample_entry)\<rparr>"


section \<open>Properties of the streaming assembler\<close>

lemma find_update_first:
  assumes "\<And>x. p x \<Longrightarrow> p (f x)"
  shows "find p (update_first p f xs) = map_option f (find p xs)"
  using assms by (induction xs) auto

lemma count_update_first:
  assumes "\<And>x. p x \<Longrightarrow> p (f x)"
  shows "length (filter p (update_first p f xs)) = length (filter p xs)"
  using assms by (induction xs) auto

lemma count_remove_first:
  "length (filter p (remove_first p xs)) = length (filter p xs) - 1"
  by (induction xs) auto

lemma find_none_count: "find p xs = None \<longleftrightarrow> length (filter p xs) = 0"
  by (induction xs) auto

lemma has_id_view_update [simp]: "has_id mid (e\<lparr>elem_view := v\<rparr>) = has_id mid e"
  by (simp add: has_id_def)


lemma absent_iff_count: "getElementById d mid = None \<longleftrightarrow> id_count d mid = 0"
  by (simp add: getElementById_def id_count_def find_none_count split: option.splits)

lemma id_count_update [simp]: "id_count (updateStreamingMessage d mid text) mid = id_count d mid"
  by (simp add: id_count_def updateStreamingMessage_def count_update_first split: option.splits)

lemma id_count_finalize [simp]: "id_count (finalizeStreamingMessage d mid text s) mid = id_count d mid"
  by (simp add: id_count_def finalizeStreamingMessage_def count_update_first split: option.splits)

lemma id_count_remove [simp]: "id_count (removeStreamingMessage d mid) mid = id_count d mid - 1"
  by (simp add: id_count_def removeStreamingMessage_def count_remove_first split: option.splits)

lemma id_count_add_assistant [simp]: "id_count (addAssistantMessage d m s) mid = id_count d mid"
  by (simp add: id_count_def addAssistantMessage_def has_id_def split: option.splits)

lemma id_count_event: "id_count (dom (handle_event mid t e)) mid \<le> id_count (dom t) mid"
  by (cases e) (simp_all add: Let_def)

lemma id_count_run_zero:
  "id_count (dom t) mid = 0 \<Longrightarrow> id_count (dom (run_events mid t evs)) mid = 0"
  unfolding run_events_def
proof (induction evs arbitrary: t)
  case Nil then show ?case by simp
next
  case (Cons e evs)
  have "id_count (dom (handle_event mid t e)) mid = 0"
    using id_count_event [of mid t e] Cons.prems by simp
  then show ?case using Cons.IH by simp
qed

lemma id_count_run_le:
  "id_count (dom (run_events mid t evs)) mid \<le> id_count (dom t) mid"
  unfolding run_events_def
proof (induction evs arbitrary: t)
  case Nil then show ?case by simp
next
  case (Cons e evs)
  show ?case using Cons.IH [of "handle_event mid t e"] id_count_event [of mid t e] by simp
qed

lemma run_events_append: "run_events mid t (xs @ ys) = run_events mid (run_events mid t xs) ys"
  by (simp add: run_events_def)

lemma view_after_update:
  "getElementById d mid \<noteq> None \<Longrightarrow>
   map_option elem_view (getElementById (updateStreamingMessage d mid text) mid) = Some (StreamingText text)"
  by (auto simp: getElementById_def updateStreamingMessage_def find_update_first split: option.splits)

lemma view_after_finalize:
  "getElementById d mid \<noteq> None \<Longrightarrow>
   map_option elem_view (getElementById (finalizeStreamingMessage d mid text s) mid) = Some (FinalAnswer text s)"
  by (auto simp: getElementById_def finalizeStreamingMessage_def find_update_first split: option.splits)

lemma present_after_update:
  "getElementById d mid \<noteq> None \<Longrightarrow> getElementById (updateStreamingMessage d mid text) mid \<noteq> None"
  by (simp add: absent_iff_count)

lemma begin_turn_present:
  "begin_turn stamp q (Some els) = (mid, t) \<Longrightarrow> getElementById (dom t) mid \<noteq> None"
  by (auto simp: begin_turn_def createStreamingMessage_def addUserMessage_def Let_def
      absent_iff_count id_count_def has_id_def js_id_def)

lemma begin_turn_count:
  "\<forall>e\<in>set els. elem_id e \<noteq> Some (''streaming-'' @ stamp) \<Longrightarrow>
   begin_turn stamp q (Some els) = (mid, t) \<Longrightarrow> id_count (dom t) mid \<le> 1"
  by (auto simp: begin_turn_def createStreamingMessage_def addUserMessage_def Let_def
      id_count_def has_id_def js_id_def filter_empty_conv)

lemma begin_turn_none_count:
  "begin_turn stamp q None = (mid, t) \<Longrightarrow> id_count (dom t) mid = 0"
  by (auto simp: begin_turn_def createStreamingMessage_def addUserMessage_def id_count_def)

lemma split_on_nonempty: "split_on c xs \<noteq> []"
  by (induction xs) (auto split: list.splits)

lemma split_on_append: "split_on c (xs @ c # ys) = split_on c xs @ split_on c ys"
proof (induction xs)
  case Nil then show ?case by simp
next
  case (Cons x xs)
  then show ?case using split_on_nonempty [of c xs]
    by (cases "split_on c xs") auto
qed

lemma process_line_empty [simp]: "process_line parse mid t [] = t"
  by (simp add: process_line_def)


lemma process_chunk_aligned:
  assumes "line_aligned a"
  shows "process_chunk parse mid t (a @ b) = process_chunk parse mid (process_chunk parse mid t a) b"
proof (cases "a = []")
  case True then show ?thesis by (simp add: process_chunk_def)
next
  case False
  then obtain a' where a: "a = a' @ [newline]"
    using assms by (metis line_aligned_def append_butlast_last_id)
  have "split_on newline a = split_on newline a' @ [[]]"
    using split_on_append [of newline a' "[]"] a by simp
  moreover have "split_on newline (a @ b) = split_on newline a' @ split_on newline b"
    using split_on_append [of newline a' b] a by simp
  ultimately show ?thesis by (simp add: process_chunk_def)
qed

lemma aligned_chunks_invariance:
  "list_all line_aligned chunks \<Longrightarrow>
   read_stream parse mid t chunks = process_chunk parse mid t (concat chunks)"
proof (induction chunks arbitrary: t)
  case Nil then show ?case by (simp add: read_stream_def process_chunk_def)
next
  case (Cons c cs)
  then show ?case by (simp add: read_stream_def process_chunk_aligned)
qed

lemma split_on_no_sep: "c \<notin> set xs \<Longrightarrow> split_on c xs = [xs]"
  by (induction xs) auto

lemma chunk_one_line:
  "newline \<notin> set l \<Longrightarrow> process_chunk parse mid t (l @ [newline]) = process_line parse mid t l"
  using split_on_append [of newline l "[]"] by (simp add: process_chunk_def split_on_no_sep)

lemma chunk_unfinished_line:
  "newline \<notin> set l \<Longrightarrow> process_chunk parse mid t l = process_line parse mid t l"
  by (simp add: process_chunk_def split_on_no_sep)

lemma process_data_line:
  "process_line parse mid t (''data: '' @ x) =
     (case parse x of None \<Rightarrow> t | Some e \<Rightarrow> handle_event mid t e)"
  by (simp add: process_line_def)

text \<open>
  Claim C1 (chunking invariance).  The claim asks that the answer assembled from an event
  stream does not depend on where the stream is cut into chunks.  The loop splits every
  chunk on its own and keeps nothing from one chunk to the next.  Take a \<open>data: \<close> line
  whose payload \<open>a @ b\<close> decodes to a token \<open>c\<close>, and cut it after \<open>a\<close>, where \<open>a\<close>
  alone is not a complete document.  Delivered in one chunk the line appends \<open>c\<close> to the
  answer; delivered in two chunks it appends nothing: the first piece fails to decode
  and is skipped, the second piece does not start with the prefix.
\<close>

theorem split_data_line_loses_token:
  assumes whole: "parse (a @ b) = Some (Token c)"
    and part: "parse a = None"
    and a: "newline \<notin> set a" and b: "newline \<notin> set b"
    and nb: "take 6 b \<noteq> ''data: ''"
  shows "concat [''data: '' @ a, b @ [newline]] = ''data: '' @ a @ b @ [newline]
       \<and> fullAnswer (read_stream parse mid t [''data: '' @ a @ b @ [newline]]) = fullAnswer t @ c
       \<and> fullAnswer (read_stream parse mid t [''data: '' @ a, b @ [newline]]) = fullAnswer t"
proof -
  define whole_line where "whole_line = ''data: '' @ a @ b"
  define head_line where "head_line = ''data: '' @ a"
  have n1: "newline \<notin> set whole_line" and n2: "newline \<notin> set head_line"
    using a b by (simp_all add: whole_line_def head_line_def newline_def)
  have l1: "process_line parse mid t whole_line = handle_event mid t (Token c)"
    unfolding whole_line_def using whole process_data_line [of parse mid t "a @ b"] by simp
  have l2: "process_line parse mid t head_line = t"
    unfolding head_line_def using part process_data_line [of parse mid t a] by simp
  have l3: "process_line parse mid t b = t"
    using nb by (simp add: process_line_def)
  have r1: "read_stream parse mid t [whole_line @ [newline]] = handle_event mid t (Token c)"
    using chunk_one_line [OF n1, of parse mid t] l1 by (simp add: read_stream_def)
  have r2: "read_stream parse mid t [head_line, b @ [newline]] = t"
    using chunk_unfinished_line [OF n2, of parse mid t] chunk_one_line [OF b, of parse mid t] l2 l3
    by (simp add: read_stream_def)
  have "fullAnswer (read_stream parse mid t [whole_line @ [newline]]) = fullAnswer t @ c"
    unfolding r1 by (simp add: Let_def)
  moreover have "fullAnswer (read_stream parse mid t [head_line, b @ [newline]]) = fullAnswer t"
    unfolding r2 by simp
  ultimately show ?thesis by (simp add: whole_line_def head_line_def)
qed

text \<open>
  The theorem at the stream \<open>data: {"type":"token","content":"A"}\<close> cut inside the word
  \<open>token\<close>, with a decoder that accepts the complete payload only.
\<close>

theorem split_data_line_loses_token_witness:
  "fullAnswer (read_stream
      (\<lambda>s. if s = ''{\"type\":\"token\",\"content\":\"A\"}'' then Some (Token ''A'') else None)
      (Some ''streaming-1'') \<lparr>fullAnswer = [], sources = [], dom = Some [\<lparr>elem_id = Some ''streaming-1'', elem_view = Typing\<rparr>]\<rparr>
      [''data: {\"type\":\"token\",\"content\":\"A\"}'' @ [newline]]) = ''A''
   \<and> fullAnswer (read_stream
      (\<lambda>s. if s = ''{\"type\":\"token\",\"content\":\"A\"}'' then Some (Token ''A'') else None)
      (Some ''streaming-1'') \<lparr>fullAnswer = [], sources = [], dom = Some [\<lparr>elem_id = Some ''streaming-1'', elem_view = Typing\<rparr>]\<rparr>
      [''data: {\"type\":\"tok'', ''en\",\"content\":\"A\"}'' @ [newline]]) = []"
  using split_data_line_loses_token
    [of "\<lambda>s. if s = ''{\"type\":\"token\",\"content\":\"A\"}'' then Some (Token ''A'') else None"
        "''{\"type\":\"tok''" "''en\",\"content\":\"A\"}''" "''A''"
        "Some ''streaming-1''"
        "\<lparr>fullAnswer = [], sources = [], dom = Some [\<lparr>elem_id = Some ''streaming-1'', elem_view = Typing\<rparr>]\<rparr>"]
  by (simp add: newline_def)

lemma sources_event_keeps_dom: "dom (handle_event mid t (Sources s)) = dom t"
  by simp

text \<open>
  Claim C2 (ordering), as the code has it.  In a turn begun on an existing message
  container, the events token \<open>a\<close>, token \<open>b\<close>, sources \<open>s\<close>, done render \<open>a\<close>, then
  \<open>a @ b\<close>, leave the rendering alone at the sources event, and finalize with
  \<open>a @ b\<close> and \<open>s\<close>.  A sources event never changes the message list or the answer.
  The finalization takes place at the done event with the citations received so far: when
  done comes before sources, the message is finalized with no citations and stays so.
\<close>

theorem sources_applied_at_done:
  assumes "begin_turn stamp q (Some els) = (mid, t)"
  shows "map (placeholder_view mid) (trace_events mid t [Token a, Token b, Sources s, Done]) =
           [Some (StreamingText a), Some (StreamingText (a @ b)), Some (StreamingText (a @ b)),
            Some (FinalAnswer (a @ b) s)]
       \<and> placeholder_view mid (run_events mid t [Token a, Token b, Done, Sources s]) =
           Some (FinalAnswer (a @ b) [])
       \<and> (\<forall>u s'. dom (handle_event mid u (Sources s')) = dom u
                \<and> fullAnswer (handle_event mid u (Sources s')) = fullAnswer u)"
proof -
  have p: "getElementById (dom t) mid \<noteq> None" using assms by (rule begin_turn_present)
  have f: "fullAnswer t = []" and s0: "sources t = []"
    using assms by (auto simp: begin_turn_def Let_def split: prod.splits)
  have "map (placeholder_view mid) (trace_events mid t [Token a, Token b, Sources s, Done]) =
           [Some (StreamingText a), Some (StreamingText (a @ b)), Some (StreamingText (a @ b)),
            Some (FinalAnswer (a @ b) s)]"
    using p f
    by (simp add: Let_def placeholder_view_def view_after_update view_after_finalize present_after_update)
  moreover have "placeholder_view mid (run_events mid t [Token a, Token b, Done, Sources s]) =
           Some (FinalAnswer (a @ b) [])"
    using p f s0
    by (simp add: run_events_def Let_def placeholder_view_def view_after_finalize present_after_update)
  ultimately show ?thesis by simp
qed

text \<open>
  The theorem at the turn begun with time stamp \<open>1\<close> on an empty container.
\<close>

theorem sources_applied_at_done_witness:
  "map (placeholder_view (Some ''streaming-1''))
     (trace_events (Some ''streaming-1'') (snd (begin_turn ''1'' ''q'' (Some [])))
        [Token ''A'', Token ''B'', Sources [''c''], Done]) =
     [Some (StreamingText ''A''), Some (StreamingText ''AB''), Some (StreamingText ''AB''),
      Some (FinalAnswer ''AB'' [''c''])]"
proof -
  have b: "begin_turn ''1'' ''q'' (Some []) =
      (Some ''streaming-1'', snd (begin_turn ''1'' ''q'' (Some [])))"
    by (simp add: begin_turn_def createStreamingMessage_def addUserMessage_def Let_def)
  show ?thesis
    using sources_applied_at_done [OF b, of "''A''" "''B''" "[''c'']"] by simp
qed

text \<open>
  Claim C2 as stated fails when the sources event follows the done event: the finalized
  message shows the answer without the citations.
\<close>

theorem sources_after_done_counterexample:
  "placeholder_view (Some ''streaming-1'')
     (run_events (Some ''streaming-1'') (snd (begin_turn ''1'' ''q'' (Some [])))
        [Token ''A'', Token ''B'', Done, Sources [''c'']]) = Some (FinalAnswer ''AB'' [])
   \<and> placeholder_view (Some ''streaming-1'')
     (run_events (Some ''streaming-1'') (snd (begin_turn ''1'' ''q'' (Some [])))
        [Token ''A'', Token ''B'', Done, Sources [''c'']]) \<noteq> Some (FinalAnswer ''AB'' [''c''])"
  by (simp add: run_events_def begin_turn_def createStreamingMessage_def addUserMessage_def Let_def
      placeholder_view_def getElementById_def updateStreamingMessage_def
      finalizeStreamingMessage_def has_id_def js_id_def)

text \<open>
  Claim C3 (finalization is final), as the code has it.  In a turn whose placeholder
  identifier is not already in use, once an error event has been handled, the placeholder
  is gone and stays gone whatever events follow: every later lookup by its identifier
  finds nothing.
\<close>

theorem error_invalidates_placeholder:
  assumes "\<forall>e\<in>set els. elem_id e \<noteq> Some (''streaming-'' @ stamp)"
    and "begin_turn stamp q (Some els) = (mid, t)"
  shows "placeholder_view mid (run_events mid t (before @ Error m # after)) = None"
proof -
  let ?t1 = "run_events mid t before"
  have "id_count (dom ?t1) mid \<le> 1"
    using id_count_run_le [of mid t before] begin_turn_count [OF assms] by simp
  then have "id_count (dom (handle_event mid ?t1 (Error m))) mid = 0" by simp
  then have "id_count (dom (run_events mid (handle_event mid ?t1 (Error m)) after)) mid = 0"
    by (rule id_count_run_zero)
  then have "getElementById (dom (run_events mid (handle_event mid ?t1 (Error m)) after)) mid = None"
    by (simp add: absent_iff_count)
  then show ?thesis
    by (simp add: placeholder_view_def run_events_def)
qed

text \<open>
  The theorem at a turn that receives a token, an error, and then four more events.
\<close>

theorem error_invalidates_placeholder_witness:
  "placeholder_view (Some ''streaming-1'')
     (run_events (Some ''streaming-1'') (snd (begin_turn ''1'' ''q'' (Some [])))
        ([Token ''A''] @ Error ''x'' # [Token ''B'', Sources [''c''], Done, Error ''y''])) = None"
proof -
  have f: "\<forall>e\<in>set ([]::element list). elem_id e \<noteq> Some (''streaming-'' @ ''1'')" by simp
  have b: "begin_turn ''1'' ''q'' (Some []) =
      (Some ''streaming-1'', snd (begin_turn ''1'' ''q'' (Some [])))"
    by (simp add: begin_turn_def createStreamingMessage_def addUserMessage_def Let_def)
  show ?thesis
    using error_invalidates_placeholder [OF f b] by blast
qed

text \<open>
  Claim C3 as stated fails after a done event: the identifier stays valid, and a later
  token event replaces the finalized rendering by a streaming one.
\<close>

theorem token_after_done_counterexample:
  "placeholder_view (Some ''streaming-1'')
     (run_events (Some ''streaming-1'') (snd (begin_turn ''1'' ''q'' (Some [])))
        [Token ''A'', Done]) = Some (FinalAnswer ''A'' [])
   \<and> placeholder_view (Some ''streaming-1'')
     (run_events (Some ''streaming-1'') (snd (begin_turn ''1'' ''q'' (Some [])))
        [Token ''A'', Done, Token ''B'']) = Some (StreamingText ''AB'')"
  by (simp add: run_events_def begin_turn_def createStreamingMessage_def addUserMessage_def Let_def
      placeholder_view_def getElementById_def updateStreamingMessage_def
      finalizeStreamingMessage_def has_id_def js_id_def)


section \<open>Properties of the message dispatch and the panel toggle\<close>

lemma responses_append [simp]: "responses (xs @ ys) = responses xs @ responses ys"
  by (simp add: responses_def)

lemma responses_Nil [simp]: "responses [] = []"
  by (simp add: responses_def)

lemma responses_Cons:
  "responses (e # l) = (case e of SendResponse r \<Rightarrow> [r] | _ \<Rightarrow> []) @ responses l"
  by (simp add: responses_def)

lemma responses_page_load: "handleYouTubePageLoad p = (p', l) \<Longrightarrow> responses l = []"
  by (auto simp: handleYouTubePageLoad_def responses_Cons Let_def split: if_splits)

lemma responses_ensure: "ensureContentScriptInjected p = (p', l) \<Longrightarrow> responses l = []"
  by (auto simp: ensureContentScriptInjected_def responses_Cons
      split: if_splits prod.splits dest: responses_page_load)

lemma responses_toggle: "toggleChatPanel p = (p', l) \<Longrightarrow> responses l = []"
  by (auto simp: toggleChatPanel_def responses_Cons Let_def
      split: option.splits prod.splits dest: responses_page_load responses_ensure)

lemma responses_respond [simp]:
  "responses (trace (respond r w)) = responses (trace w) @ [r]"
  by (simp add: respond_def responses_Cons)

lemma responses_toggle_tab [simp]:
  "responses (trace (toggle_tab w tid)) = responses (trace w)"
  by (cases "toggleChatPanel (tabs w tid)") (simp add: toggle_tab_def responses_toggle)

lemma trace_check:
  "checkBackendConnection en w = (c, w1) \<Longrightarrow>
   c = (health en (backendUrl w @ ''/health'') = None) \<and>
   trace w1 = trace w @ [HealthCheck (backendUrl w @ ''/health'') c]"
  by (auto simp: checkBackendConnection_def Let_def split: option.splits)

lemma responses_check:
  "checkBackendConnection en w = (c, w1) \<Longrightarrow> responses (trace w1) = responses (trace w)"
  by (auto dest!: trace_check simp: responses_Cons)

lemma responses_update:
  "updateSettings en w st = Inr w1 \<Longrightarrow> responses (trace w1) = responses (trace w)"
proof -
  assume u: "updateSettings en w st = Inr w1"
  let ?w1 = "w\<lparr>sync_items := merge_items (sync_items w) st, trace := trace w @ [StorageSyncSet]\<rparr>"
  have base: "responses (trace ?w1) = responses (trace w)" by (simp add: responses_Cons)
  show ?thesis
  proof (cases "set_backendUrl st")
    case None
    then show ?thesis using u base by (auto simp: updateSettings_def Let_def split: option.splits)
  next
    case (Some url)
    show ?thesis
    proof (cases "url = []")
      case True
      then show ?thesis using u base Some by (auto simp: updateSettings_def Let_def split: option.splits)
    next
      case False
      obtain c w2 where k: "checkBackendConnection en (?w1\<lparr>backendUrl := url\<rparr>) = (c, w2)" by force
      have "w1 = w2" using u Some False k by (auto simp: updateSettings_def Let_def split: option.splits)
      then show ?thesis using responses_check [OF k] by (simp add: responses_Cons)
    qed
  qed
qed

lemma responses_clear:
  "clearConversationHistory en w vid = Inr w1 \<Longrightarrow> responses (trace w1) = responses (trace w)"
  by (auto simp: clearConversationHistory_def split: option.splits)

lemma dispatch_Inr_one:
  "dispatch en w req sender = Inr w' \<Longrightarrow> \<exists>r. responses (trace w') = responses (trace w) @ [r]"
  unfolding dispatch_def
  by (auto split: if_splits option.splits sum.splits prod.splits
      dest: responses_update responses_clear responses_check)

lemma dispatch_Inl_same:
  "dispatch en w req sender = Inl (msg, w') \<Longrightarrow> w' = w"
  unfolding dispatch_def
  by (auto split: if_splits option.splits sum.splits prod.splits)

text \<open>
  Claim C5 (dispatch boundary).  An envelope whose action is none of the nine names the
  \<open>switch\<close> knows is answered with \<open>{error: "Unknown action"}\<close>.  When an awaited
  handler throws, which the four storage handlers do when the storage call throws, the
  \<open>catch\<close> answers with \<open>{error: message}\<close>.  In every case the dispatch sends exactly
  one response.
\<close>

theorem dispatcher_always_answers:
  "(action req \<notin> set recognized_actions \<longrightarrow>
      handleMessage en w req sender = respond (ErrorOnly ''Unknown action'') w)
   \<and> (\<forall>msg w'. dispatch en w req sender = Inl (msg, w') \<longrightarrow>
         handleMessage en w req sender = respond (ErrorOnly msg) w')
   \<and> (\<forall>msg. storage_fault en = Some msg \<and>
         action req \<in> {''getSettings'', ''updateSettings'', ''getConversationHistory'',
                        ''clearConversationHistory''} \<longrightarrow>
         handleMessage en w req sender = respond (ErrorOnly msg) w)
   \<and> (\<exists>r. responses (trace (handleMessage en w req sender)) = responses (trace w) @ [r])"
proof -
  have a: "action req \<notin> set recognized_actions \<longrightarrow>
      handleMessage en w req sender = respond (ErrorOnly ''Unknown action'') w"
    by (simp add: handleMessage_def dispatch_def recognized_actions_def)
  have b: "\<forall>msg w'. dispatch en w req sender = Inl (msg, w') \<longrightarrow>
         handleMessage en w req sender = respond (ErrorOnly msg) w'"
    by (simp add: handleMessage_def)
  have c: "\<forall>msg. storage_fault en = Some msg \<and>
         action req \<in> {''getSettings'', ''updateSettings'', ''getConversationHistory'',
                        ''clearConversationHistory''} \<longrightarrow>
         handleMessage en w req sender = respond (ErrorOnly msg) w"
    by (auto simp: handleMessage_def dispatch_def getSettings_def updateSettings_def
        getConversationHistory_def clearConversationHistory_def)
  have d: "\<exists>r. responses (trace (handleMessage en w req sender)) = responses (trace w) @ [r]"
  proof (cases "dispatch en w req sender")
    case (Inl e)
    then obtain msg w' where e: "e = (msg, w')" by force
    then have "w' = w" using Inl dispatch_Inl_same by blast
    then show ?thesis using Inl e by (simp add: handleMessage_def)
  next
    case (Inr w')
    then show ?thesis using dispatch_Inr_one [OF Inr] by (simp add: handleMessage_def)
  qed
  show ?thesis using a b c d by blast
qed

text \<open>
  The theorem at an envelope with the action \<open>ping\<close>, and at a \<open>getSettings\<close> envelope
  while the storage call throws.
\<close>

theorem dispatcher_always_answers_witness:
  "handleMessage offline_env (blank_world True) (bare_request ''ping'') None =
     respond (ErrorOnly ''Unknown action'') (blank_world True)
   \<and> handleMessage (offline_env\<lparr>storage_fault := Some ''storage unavailable''\<rparr>) (blank_world True)
        (bare_request ''getSettings'') None =
     respond (ErrorOnly ''storage unavailable'') (blank_world True)"
proof -
  have u: "action (bare_request ''ping'') \<notin> set recognized_actions"
    by (simp add: bare_request_def recognized_actions_def)
  have f: "storage_fault (offline_env\<lparr>storage_fault := Some ''storage unavailable''\<rparr>) = Some ''storage unavailable''
      \<and> action (bare_request ''getSettings'') \<in> {''getSettings'', ''updateSettings'', ''getConversationHistory'',
                        ''clearConversationHistory''}"
    by (simp add: bare_request_def)
  show ?thesis
    using u f
      dispatcher_always_answers [of "bare_request ''ping''" offline_env "blank_world True" None]
      dispatcher_always_answers [of "bare_request ''getSettings''"
        "offline_env\<lparr>storage_fault := Some ''storage unavailable''\<rparr>" "blank_world True" None]
    by blast
qed

text \<open>
  Claim C8 (settings write and reachability check), as the code has it.  An
  \<open>updateSettings\<close> request writes the settings; if they carry a non-empty
  \<open>backendUrl\<close>, the service adopts it and checks the backend, and only when that check
  has returned is \<open>{success: true}\<close> sent.  The response is the same whatever the check
  finds.  Settings without a \<open>backendUrl\<close> trigger no check.
\<close>

theorem updateSettings_recheck:
  assumes "action req = ''updateSettings''" and "storage_fault en = None"
  shows "trace (handleMessage en w req sender) =
           trace w @ [StorageSyncSet]
           @ (case set_backendUrl (settings req) of
                None \<Rightarrow> []
              | Some u \<Rightarrow> if u = [] then []
                          else [HealthCheck (u @ ''/health'') (health en (u @ ''/health'') = None)])
           @ [SendResponse Success]"
proof -
  let ?w1 = "w\<lparr>sync_items := merge_items (sync_items w) (settings req), trace := trace w @ [StorageSyncSet]\<rparr>"
  show ?thesis
  proof (cases "set_backendUrl (settings req)")
    case None
    then show ?thesis using assms
      by (simp add: handleMessage_def dispatch_def updateSettings_def respond_def Let_def)
  next
    case (Some u)
    show ?thesis
    proof (cases "u = []")
      case True
      then show ?thesis using assms Some
        by (simp add: handleMessage_def dispatch_def updateSettings_def respond_def Let_def)
    next
      case False
      obtain c w2 where k: "checkBackendConnection en (?w1\<lparr>backendUrl := u\<rparr>) = (c, w2)" by force
      have t: "trace w2 = trace w @ [StorageSyncSet, HealthCheck (u @ ''/health'') (health en (u @ ''/health'') = None)]"
        using trace_check [OF k] by simp
      show ?thesis using assms Some False k t
        by (simp add: handleMessage_def dispatch_def updateSettings_def respond_def Let_def)
    qed
  qed
qed

text \<open>
  The theorem at a request that sets \<open>backendUrl\<close> while the backend is unreachable.
\<close>

theorem updateSettings_recheck_witness:
  "trace (handleMessage offline_env (blank_world True)
      ((bare_request ''updateSettings'')
         \<lparr>settings := (settings (bare_request ''updateSettings''))\<lparr>set_backendUrl := Some ''http://h''\<rparr>\<rparr>) None) =
     [StorageSyncSet, HealthCheck ''http://h/health'' False, SendResponse Success]"
proof -
  have a: "action ((bare_request ''updateSettings'')
         \<lparr>settings := (settings (bare_request ''updateSettings''))\<lparr>set_backendUrl := Some ''http://h''\<rparr>\<rparr>) = ''updateSettings''"
    by (simp add: bare_request_def)
  have f: "storage_fault offline_env = None" by (simp add: offline_env_def)
  show ?thesis
    using updateSettings_recheck [OF a f, of "blank_world True" None]
    by (simp add: bare_request_def offline_env_def blank_world_def)
qed

text \<open>
  Claim C8 as stated fails twice.  A request that only sets \<open>darkMode\<close> (what the popup
  sends for a toggle) triggers no reachability check; and in a request that sets
  \<open>backendUrl\<close> the response is sent after the check has completed, not before.
\<close>

theorem updateSettings_recheck_counterexample:
  "trace (handleMessage offline_env (blank_world True)
      ((bare_request ''updateSettings'')
         \<lparr>settings := (settings (bare_request ''updateSettings''))\<lparr>set_darkMode := Some True\<rparr>\<rparr>) None) =
     [StorageSyncSet, SendResponse Success]
   \<and> trace (handleMessage offline_env (blank_world True)
      ((bare_request ''updateSettings'')
         \<lparr>settings := (settings (bare_request ''updateSettings''))\<lparr>set_backendUrl := Some ''http://h''\<rparr>\<rparr>) None) =
     [StorageSyncSet, HealthCheck ''http://h/health'' False, SendResponse Success]"
  by (simp add: handleMessage_def dispatch_def updateSettings_def respond_def Let_def
      checkBackendConnection_def bare_request_def offline_env_def blank_world_def)

lemma count_send_page_load:
  "handleYouTubePageLoad p = (p', l) \<Longrightarrow> count_list l (TabsSendMessage a) = 0 \<and> count_list l PageLoadCall = 1"
  by (auto simp: handleYouTubePageLoad_def Let_def split: if_splits)

lemma count_send_ensure:
  "ensureContentScriptInjected p = (p', l) \<Longrightarrow> count_list l (TabsSendMessage a) = 0"
  by (auto simp: ensureContentScriptInjected_def split: if_splits prod.splits dest: count_send_page_load)

lemma count_list_append [simp]: "count_list (xs @ ys) x = count_list xs x + count_list ys x"
  by (induction xs) auto

lemma handleMessage_toggle:
  "action req = ''togglePanel'' \<Longrightarrow>
   truthy_id sender = Some tid \<or>
     truthy_id sender = None \<and> query_fault en = None \<and> truthy_id (active_tab en) = Some tid \<Longrightarrow>
   handleMessage en w req sender = toggle_tab (respond Success w) tid"
  by (auto simp: handleMessage_def dispatch_def)

text \<open>
  Claim C4 (bounded retry), as the code has it.  When the first \<open>togglePanel\<close> message
  finds no listener in the tab, the service calls its injection procedure exactly once
  more, waits 500 ms, and sends the message exactly once more: two sends in all.  The
  outcome of the retry is only logged.  The caller of the \<open>togglePanel\<close> action is
  answered \<open>{success: true}\<close> in every case, since the service does not wait for the
  toggle.
\<close>

theorem toggle_retry_bounded:
  assumes e: "ensureContentScriptInjected p = (p1, l1)"
    and n: "message_listeners p1 = 0"
    and h: "handleYouTubePageLoad p1 = (p3, l3)"
  shows "snd (toggleChatPanel p) =
           l1 @ [TabsSendMessage ''togglePanel'', Console WarnNotReady] @ l3
           @ [SetTimeout 500, TabsSendMessage ''togglePanel'',
              Console (if message_listeners p3 = 0 then ErrorRetryFailed else LogToggledAfterRetry)]
       \<and> count_list l3 PageLoadCall = 1
       \<and> count_list (snd (toggleChatPanel p)) (TabsSendMessage ''togglePanel'') = 2
       \<and> (\<forall>en w req sender tid.
             action req = ''togglePanel'' \<and>
             (truthy_id sender = Some tid \<or>
              truthy_id sender = None \<and> query_fault en = None \<and> truthy_id (active_tab en) = Some tid)
             \<longrightarrow> responses (trace (handleMessage en w req sender)) = responses (trace w) @ [Success])"
proof -
  have shape: "snd (toggleChatPanel p) =
           l1 @ [TabsSendMessage ''togglePanel'', Console WarnNotReady] @ l3
           @ [SetTimeout 500, TabsSendMessage ''togglePanel'',
              Console (if message_listeners p3 = 0 then ErrorRetryFailed else LogToggledAfterRetry)]"
    using e n h by (simp add: toggleChatPanel_def tabs_sendMessage_def Let_def split: prod.splits)
  have c1: "count_list l3 PageLoadCall = 1" and c0: "count_list l3 (TabsSendMessage ''togglePanel'') = 0"
    using count_send_page_load [OF h] by simp_all
  have c2: "count_list l1 (TabsSendMessage ''togglePanel'') = 0"
    using count_send_ensure [OF e] by simp
  have cnt: "count_list (snd (toggleChatPanel p)) (TabsSendMessage ''togglePanel'') = 2"
    unfolding shape using c0 c2 by simp
  have resp: "\<forall>en w req sender tid.
             action req = ''togglePanel'' \<and>
             (truthy_id sender = Some tid \<or>
              truthy_id sender = None \<and> query_fault en = None \<and> truthy_id (active_tab en) = Some tid)
             \<longrightarrow> responses (trace (handleMessage en w req sender)) = responses (trace w) @ [Success]"
    by (auto simp: handleMessage_toggle)
  show ?thesis using shape c1 cnt resp by blast
qed

text \<open>
  The theorem at a tab that cannot be scripted, where the retry fails as well; the request
  comes from the popup, and the tab is the active one.
\<close>

theorem toggle_retry_bounded_witness:
  "snd (toggleChatPanel (blank_page False)) =
     [ExecuteProbe ''YouTubeRAGAssistantInitialized'', Console ErrorProbe,
      TabsSendMessage ''togglePanel'', Console WarnNotReady,
      PageLoadCall, ExecuteProbe ''rag-chat-panel'', Console ErrorInject,
      SetTimeout 500, TabsSendMessage ''togglePanel'', Console ErrorRetryFailed]
   \<and> responses (trace (handleMessage (offline_env\<lparr>active_tab := Some 7\<rparr>) (blank_world False)
         (bare_request ''togglePanel'') None)) = [Success]"
proof -
  have r: "action (bare_request ''togglePanel'') = ''togglePanel'' \<and> truthy_id None = None
      \<and> query_fault (offline_env\<lparr>active_tab := Some 7\<rparr>) = None
      \<and> truthy_id (active_tab (offline_env\<lparr>active_tab := Some 7\<rparr>)) = Some 7
      \<and> responses (trace (blank_world False)) = []"
    by (simp add: bare_request_def truthy_id_def blank_world_def offline_env_def)
  have e: "ensureContentScriptInjected (blank_page False) =
      (blank_page False, [ExecuteProbe ''YouTubeRAGAssistantInitialized'', Console ErrorProbe])"
    by (simp add: ensureContentScriptInjected_def blank_page_def new_document_def)
  have n: "message_listeners (blank_page False) = 0"
    by (simp add: blank_page_def new_document_def)
  have h: "handleYouTubePageLoad (blank_page False) =
      (blank_page False, [PageLoadCall, ExecuteProbe ''rag-chat-panel'', Console ErrorInject])"
    by (simp add: handleYouTubePageLoad_def blank_page_def new_document_def)
  have s: "responses (trace (handleMessage (offline_env\<lparr>active_tab := Some 7\<rparr>) (blank_world False)
         (bare_request ''togglePanel'') None)) = responses (trace (blank_world False)) @ [Success]"
    using toggle_retry_bounded [OF e n h] r by blast
  show ?thesis using toggle_retry_bounded [OF e n h] n s r by simp
qed

text \<open>
  Claim C4 as stated fails where the retry fails.  The popup asks for the toggle while
  the active tab cannot be scripted and has no listener: the failure of the retry is
  logged, and the one response the popup gets is \<open>{success: true}\<close>, not an error.
\<close>

theorem toggle_failure_not_surfaced_counterexample:
  "trace (handleMessage (offline_env\<lparr>active_tab := Some 7\<rparr>) (blank_world False)
      (bare_request ''togglePanel'') None) =
     [SendResponse Success,
      ExecuteProbe ''YouTubeRAGAssistantInitialized'', Console ErrorProbe,
      TabsSendMessage ''togglePanel'', Console WarnNotReady,
      PageLoadCall, ExecuteProbe ''rag-chat-panel'', Console ErrorInject,
      SetTimeout 500, TabsSendMessage ''togglePanel'', Console ErrorRetryFailed]
   \<and> responses (trace (handleMessage (offline_env\<lparr>active_tab := Some 7\<rparr>) (blank_world False)
         (bare_request ''togglePanel'') None)) = [Success]"
  by (simp add: handleMessage_def dispatch_def truthy_id_def toggle_tab_def respond_def offline_env_def
      toggleChatPanel_def ensureContentScriptInjected_def handleYouTubePageLoad_def
      tabs_sendMessage_def bare_request_def blank_world_def blank_page_def new_document_def Let_def
      responses_def)


section \<open>Properties of injection and of the conversation stores\<close>

lemma with_messages_fields [simp]:
  "window_flags (with_messages f p) = window_flags p"
  "scriptable (with_messages f p) = scriptable p"
  "loading (with_messages f p) = loading p"
  "deferred_setups (with_messages f p) = deferred_setups p"
  "message_listeners (with_messages f p) = message_listeners p"
  "video_listeners (with_messages f p) = video_listeners p"
  "panel_setups (with_messages f p) = panel_setups p"
  "on_video_page (with_messages f p) = on_video_page p"
  "url_v (with_messages f p) = url_v p"
  "storage (with_messages f p) = storage p"
  "currentVideoId (with_messages f p) = currentVideoId p"
  "conversationHistory (with_messages f p) = conversationHistory p"
  "chatPanel (with_messages f p) = chatPanel p"
  "length (panels (with_messages f p)) = length (panels p)"
  by (simp_all add: with_messages_def split: list.splits option.splits)

lemma load_fields [simp]:
  "window_flags (loadConversationHistory p) = window_flags p"
  "scriptable (loadConversationHistory p) = scriptable p"
  "loading (loadConversationHistory p) = loading p"
  "deferred_setups (loadConversationHistory p) = deferred_setups p"
  "message_listeners (loadConversationHistory p) = message_listeners p"
  "video_listeners (loadConversationHistory p) = video_listeners p"
  "panel_setups (loadConversationHistory p) = panel_setups p"
  "on_video_page (loadConversationHistory p) = on_video_page p"
  "url_v (loadConversationHistory p) = url_v p"
  "storage (loadConversationHistory p) = storage p"
  "currentVideoId (loadConversationHistory p) = currentVideoId p"
  "chatPanel (loadConversationHistory p) = chatPanel p"
  "length (panels (loadConversationHistory p)) = length (panels p)"
  by (simp_all add: loadConversationHistory_def split: option.splits stored.splits)

lemma create_fields [simp]:
  "window_flags (createChatPanel p) = window_flags p"
  "scriptable (createChatPanel p) = scriptable p"
  "loading (createChatPanel p) = loading p"
  "deferred_setups (createChatPanel p) = deferred_setups p"
  "message_listeners (createChatPanel p) = message_listeners p"
  "video_listeners (createChatPanel p) = video_listeners p"
  "panel_setups (createChatPanel p) = panel_setups p + 1"
  "on_video_page (createChatPanel p) = on_video_page p"
  "url_v (createChatPanel p) = url_v p"
  "storage (createChatPanel p) = storage p"
  "chatPanel (createChatPanel p) = True"
  "length (panels (createChatPanel p)) = length (panels p) - 1 + 1"
  by (simp_all add: createChatPanel_def Let_def split: list.splits)

lemma setup_fields [simp]:
  "window_flags (setup_assistant p) = window_flags p"
  "scriptable (setup_assistant p) = scriptable p"
  "loading (setup_assistant p) = loading p"
  "deferred_setups (setup_assistant p) = deferred_setups p"
  "message_listeners (setup_assistant p) = message_listeners p + 1"
  "video_listeners (setup_assistant p) = video_listeners p + 1"
  "panel_setups (setup_assistant p) = panel_setups p + 1"
  "storage (setup_assistant p) = storage p"
  "length (panels (setup_assistant p)) = length (panels p) - 1 + 1"
  by (simp_all add: setup_assistant_def Let_def)

lemma constructor_fields [simp]:
  "window_flags (constructor p) = window_flags p"
  "scriptable (constructor p) = scriptable p"
  "loading (constructor p) = loading p"
  "storage (constructor p) = storage p"
  by (simp_all add: constructor_def init_def)

lemma content_js_flags [simp]:
  "window_flags (content_js p) = insert ''YouTubeRAGAssistantLoaded'' (window_flags p)"
  by (auto simp: content_js_def)

lemma content_js_twice: "content_js (content_js p) = content_js p"
proof -
  have "''YouTubeRAGAssistantLoaded'' \<in> window_flags (content_js p)" by simp
  then show ?thesis by (subst content_js_def) simp
qed

lemma settled_after_script:
  assumes "''YouTubeRAGAssistantLoaded'' \<notin> window_flags p" and "deferred_setups p = 0"
  shows "length (panels (settled (content_js p))) = length (panels p) - 1 + 1
       \<and> message_listeners (settled (content_js p)) = message_listeners p + 1
       \<and> video_listeners (settled (content_js p)) = video_listeners p + 1
       \<and> panel_setups (settled (content_js p)) = panel_setups p + 1"
proof (cases "loading p")
  case True
  then show ?thesis using assms
    by (simp add: settled_def content_js_def constructor_def init_def DOMContentLoaded_def)
next
  case False
  then show ?thesis using assms
    by (simp add: settled_def content_js_def constructor_def init_def)
qed

lemma injection_counts:
  "content_js (content_js p) = content_js p
   \<and> (''YouTubeRAGAssistantLoaded'' \<in> window_flags p \<longrightarrow> content_js p = p)
   \<and> ''YouTubeRAGAssistantLoaded'' \<in> window_flags (content_js p)
   \<and> (''YouTubeRAGAssistantLoaded'' \<notin> window_flags p \<and> length (panels p) \<le> 1
        \<and> deferred_setups p = 0 \<and> message_listeners p = 0 \<and> video_listeners p = 0
        \<and> panel_setups p = 0 \<longrightarrow>
        length (panels (settled (content_js (content_js p)))) = 1
        \<and> message_listeners (settled (content_js (content_js p))) = 1
        \<and> video_listeners (settled (content_js (content_js p))) = 1
        \<and> panel_setups (settled (content_js (content_js p))) = 1)
   \<and> (''YouTubeRAGAssistantLoaded'' \<notin> window_flags p \<and> panels p = [] \<and> scriptable p
        \<and> deferred_setups p = 0 \<and> message_listeners p = 0 \<and> video_listeners p = 0
        \<and> panel_setups p = 0 \<longrightarrow>
        length (panels (settled (fst (handleYouTubePageLoad (fst (handleYouTubePageLoad p)))))) = 1
        \<and> message_listeners (settled (fst (handleYouTubePageLoad (fst (handleYouTubePageLoad p))))) = 1
        \<and> video_listeners (settled (fst (handleYouTubePageLoad (fst (handleYouTubePageLoad p))))) = 1
        \<and> panel_setups (settled (fst (handleYouTubePageLoad (fst (handleYouTubePageLoad p))))) = 1)"
proof -
  have a: "content_js (content_js p) = content_js p" by (rule content_js_twice)
  have a1: "''YouTubeRAGAssistantLoaded'' \<in> window_flags p \<longrightarrow> content_js p = p"
    by (simp add: content_js_def)
  have a2: "''YouTubeRAGAssistantLoaded'' \<in> window_flags (content_js p)" by simp
  have b: "length (panels (settled (content_js (content_js p)))) = 1
        \<and> message_listeners (settled (content_js (content_js p))) = 1
        \<and> video_listeners (settled (content_js (content_js p))) = 1
        \<and> panel_setups (settled (content_js (content_js p))) = 1"
    if "''YouTubeRAGAssistantLoaded'' \<notin> window_flags p" "length (panels p) \<le> 1"
       "deferred_setups p = 0" "message_listeners p = 0" "video_listeners p = 0" "panel_setups p = 0"
    using settled_after_script [of p] that unfolding a by auto
  have c: "length (panels (settled (fst (handleYouTubePageLoad (fst (handleYouTubePageLoad p)))))) = 1
        \<and> message_listeners (settled (fst (handleYouTubePageLoad (fst (handleYouTubePageLoad p))))) = 1
        \<and> video_listeners (settled (fst (handleYouTubePageLoad (fst (handleYouTubePageLoad p))))) = 1
        \<and> panel_setups (settled (fst (handleYouTubePageLoad (fst (handleYouTubePageLoad p))))) = 1"
    if h: "''YouTubeRAGAssistantLoaded'' \<notin> window_flags p" "panels p = []" "scriptable p"
       "deferred_setups p = 0" "message_listeners p = 0" "video_listeners p = 0" "panel_setups p = 0"
  proof (cases "loading p")
    case False
    let ?q = "(content_js p)\<lparr>stylesheets := stylesheets (content_js p) + 1\<rparr>"
    have one: "fst (handleYouTubePageLoad p) = ?q"
      using h by (simp add: handleYouTubePageLoad_def Let_def)
    have s: "settled (content_js p) = content_js p"
      using False h by (simp add: settled_def content_js_def)
    have cnt: "length (panels (content_js p)) = 1 \<and> message_listeners (content_js p) = 1
        \<and> video_listeners (content_js p) = 1 \<and> panel_setups (content_js p) = 1"
      using settled_after_script [of p] h unfolding s by simp
    have ne: "panels ?q \<noteq> []" using cnt by auto
    have two: "fst (handleYouTubePageLoad ?q) = ?q"
      using ne h by (simp add: handleYouTubePageLoad_def)
    have nl: "\<not> loading ?q" using False h by (simp add: content_js_def)
    show ?thesis unfolding one two using cnt nl by (simp add: settled_def)
  next
    case True
    let ?c = "content_js p"
    let ?q = "?c\<lparr>stylesheets := stylesheets ?c + 1\<rparr>"
    let ?r = "?c\<lparr>stylesheets := stylesheets ?c + 2\<rparr>"
    have cj: "?c = p\<lparr>window_flags := insert ''YouTubeRAGAssistantLoaded'' (window_flags p),
          isInitialized := False, chatPanel := False, currentVideoId := None,
          conversationHistory := [], isProcessing := False, deferred_setups := 1\<rparr>"
      using True h by (simp add: content_js_def constructor_def init_def)
    have one: "fst (handleYouTubePageLoad p) = ?q"
      using h by (simp add: handleYouTubePageLoad_def Let_def)
    have pe: "panels ?q = []" and sq: "scriptable ?q" using h by (simp_all add: cj)
    have cq: "content_js ?q = ?q" by (simp add: content_js_def cj)
    have two: "fst (handleYouTubePageLoad ?q) = ?r"
      using pe sq cq by (simp add: handleYouTubePageLoad_def Let_def)
    have st: "settled ?r = (settled ?c)\<lparr>stylesheets := stylesheets ?c + 2\<rparr>"
      using True by (simp add: settled_def DOMContentLoaded_def cj setup_assistant_def
          createChatPanel_def loadConversationHistory_def with_messages_def Let_def
          split: option.splits stored.splits list.splits)
    show ?thesis unfolding one two st using settled_after_script [of p] h by simp
  qed
  show ?thesis using a a1 a2 b c by blast
qed

lemma create_ignores_root:
  "panels (createChatPanel (p\<lparr>panels := [x]\<rparr>)) = panels (createChatPanel (p\<lparr>panels := []\<rparr>))"
  by (simp add: createChatPanel_def loadConversationHistory_def with_messages_def Let_def
      split: option.splits stored.splits)

lemma create_fresh_root:
  "items (storage p) (content_key (currentVideoId p)) = None \<Longrightarrow>
   panels (createChatPanel (p\<lparr>panels := [x]\<rparr>)) = [\<lparr>shown = True, panel_messages = []\<rparr>]"
  by (simp add: createChatPanel_def loadConversationHistory_def Let_def)

lemma script_ignores_root:
  "''YouTubeRAGAssistantLoaded'' \<notin> window_flags p \<Longrightarrow> \<not> loading p \<Longrightarrow>
   panels (content_js (p\<lparr>panels := [x]\<rparr>)) = panels (content_js (p\<lparr>panels := []\<rparr>))"
  by (simp add: content_js_def constructor_def init_def setup_assistant_def Let_def
      createChatPanel_def loadConversationHistory_def with_messages_def content_key_def
      split: option.splits stored.splits)

lemma page_load_skips_existing_root:
  "scriptable p \<Longrightarrow> panels p \<noteq> [] \<Longrightarrow> fst (handleYouTubePageLoad p) = p"
  by (simp add: handleYouTubePageLoad_def)

text \<open>
  Claim C7 (idempotent injection), as the code has it.  Executing the content script a
  second time in the same context changes nothing: the script finds the flag
  \<open>YouTubeRAGAssistantLoaded\<close>, which its first execution sets, and does nothing.  In a
  context where the script has not run (no flag, no handlers) and at most one panel is
  left in the document, two executions leave, once the document has loaded, exactly one
  panel, one message listener, one navigation observer and one set of panel handlers.
  The same holds for two calls of the injection procedure of the service on a tab it can
  script and whose document has no panel.  \<open>createChatPanel\<close> removes a panel it finds
  before it creates the new one: what it leaves does not depend on the old panel, and
  with nothing to replay the one panel is the new, visible and empty one; so it is for a
  first execution of the script.  Where the flag is already set an execution leaves the
  page as it is, whatever the number of panels; and the service does not inject into a
  tab whose document shows a panel.
\<close>

theorem injection_runs_once:
  "content_js (content_js p) = content_js p
   \<and> (''YouTubeRAGAssistantLoaded'' \<in> window_flags p \<longrightarrow> content_js p = p)
   \<and> ''YouTubeRAGAssistantLoaded'' \<in> window_flags (content_js p)
   \<and> (''YouTubeRAGAssistantLoaded'' \<notin> window_flags p \<and> length (panels p) \<le> 1
        \<and> deferred_setups p = 0 \<and> message_listeners p = 0 \<and> video_listeners p = 0
        \<and> panel_setups p = 0 \<longrightarrow>
        length (panels (settled (content_js (content_js p)))) = 1
        \<and> message_listeners (settled (content_js (content_js p))) = 1
        \<and> video_listeners (settled (content_js (content_js p))) = 1
        \<and> panel_setups (settled (content_js (content_js p))) = 1)
   \<and> (''YouTubeRAGAssistantLoaded'' \<notin> window_flags p \<and> panels p = [] \<and> scriptable p
        \<and> deferred_setups p = 0 \<and> message_listeners p = 0 \<and> video_listeners p = 0
        \<and> panel_setups p = 0 \<longrightarrow>
        length (panels (settled (fst (handleYouTubePageLoad (fst (handleYouTubePageLoad p)))))) = 1
        \<and> message_listeners (settled (fst (handleYouTubePageLoad (fst (handleYouTubePageLoad p))))) = 1
        \<and> video_listeners (settled (fst (handleYouTubePageLoad (fst (handleYouTubePageLoad p))))) = 1
        \<and> panel_setups (settled (fst (handleYouTubePageLoad (fst (handleYouTubePageLoad p))))) = 1)
   \<and> panels (createChatPanel (p\<lparr>panels := [x]\<rparr>)) = panels (createChatPanel (p\<lparr>panels := []\<rparr>))
   \<and> (items (storage p) (content_key (currentVideoId p)) = None \<longrightarrow>
        panels (createChatPanel (p\<lparr>panels := [x]\<rparr>)) = [\<lparr>shown = True, panel_messages = []\<rparr>])
   \<and> (''YouTubeRAGAssistantLoaded'' \<notin> window_flags p \<and> \<not> loading p \<longrightarrow>
        panels (content_js (p\<lparr>panels := [x]\<rparr>)) = panels (content_js (p\<lparr>panels := []\<rparr>)))
   \<and> (scriptable p \<and> panels p \<noteq> [] \<longrightarrow> fst (handleYouTubePageLoad p) = p)"
  using injection_counts [of p] create_ignores_root [where p = p and x = x]
    create_fresh_root [where p = p and x = x] script_ignores_root [where p = p and x = x]
    page_load_skips_existing_root [of p]
  by blast

text \<open>
  The theorem at a freshly loaded watch page, and at the same page with a hidden panel
  that holds an old message.
\<close>

theorem injection_runs_once_witness:
  "content_js (content_js (blank_page True)) = content_js (blank_page True)
   \<and> length (panels (settled (content_js (content_js (blank_page True))))) = 1
   \<and> message_listeners (settled (content_js (content_js (blank_page True)))) = 1
   \<and> video_listeners (settled (content_js (content_js (blank_page True)))) = 1
   \<and> panel_setups (settled (content_js (content_js (blank_page True)))) = 1
   \<and> length (panels (settled (fst (handleYouTubePageLoad (fst (handleYouTubePageLoad (blank_page True))))))) = 1
   \<and> message_listeners (settled (fst (handleYouTubePageLoad (fst (handleYouTubePageLoad (blank_page True)))))) = 1
   \<and> panels (createChatPanel ((blank_page True)
        \<lparr>panels := [\<lparr>shown = False,
                      panel_messages = [\<lparr>elem_id = None, elem_view = UserText ''old''\<rparr>]\<rparr>]\<rparr>)) =
       [\<lparr>shown = True, panel_messages = []\<rparr>]
   \<and> panels (content_js ((blank_page True)
        \<lparr>panels := [\<lparr>shown = False,
                      panel_messages = [\<lparr>elem_id = None, elem_view = UserText ''old''\<rparr>]\<rparr>]\<rparr>)) =
       panels (content_js ((blank_page True)\<lparr>panels := []\<rparr>))
   \<and> fst (handleYouTubePageLoad (content_js (blank_page True))) = content_js (blank_page True)"
proof -
  let ?old = "\<lparr>shown = False, panel_messages = [\<lparr>elem_id = None, elem_view = UserText ''old''\<rparr>]\<rparr>"
  have h: "''YouTubeRAGAssistantLoaded'' \<notin> window_flags (blank_page True)
      \<and> length (panels (blank_page True)) \<le> 1 \<and> panels (blank_page True) = []
      \<and> scriptable (blank_page True) \<and> deferred_setups (blank_page True) = 0
      \<and> message_listeners (blank_page True) = 0 \<and> video_listeners (blank_page True) = 0
      \<and> panel_setups (blank_page True) = 0 \<and> \<not> loading (blank_page True)
      \<and> items (storage (blank_page True)) (content_key (currentVideoId (blank_page True))) = None"
    by (simp add: blank_page_def new_document_def)
  have g: "''YouTubeRAGAssistantLoaded'' \<in> window_flags (content_js (blank_page True))"
    using injection_runs_once [of "blank_page True"] by blast
  have n: "content_js (content_js (blank_page True)) = content_js (blank_page True)"
    using injection_runs_once [of "content_js (blank_page True)"] g by blast
  have s: "scriptable (content_js (blank_page True)) \<and> panels (content_js (blank_page True)) \<noteq> []"
    by (simp add: content_js_def constructor_def init_def setup_assistant_def createChatPanel_def
        loadConversationHistory_def content_key_def blank_page_def new_document_def Let_def)
  have k: "fst (handleYouTubePageLoad (content_js (blank_page True))) = content_js (blank_page True)"
    using injection_runs_once [of "content_js (blank_page True)"] s by blast
  note at_blank = injection_runs_once [where p = "blank_page True" and x = ?old]
  have c1: "length (panels (settled (content_js (content_js (blank_page True))))) = 1
      \<and> message_listeners (settled (content_js (content_js (blank_page True)))) = 1
      \<and> video_listeners (settled (content_js (content_js (blank_page True)))) = 1
      \<and> panel_setups (settled (content_js (content_js (blank_page True)))) = 1"
    using at_blank h by blast
  have c2: "length (panels (settled (fst (handleYouTubePageLoad (fst (handleYouTubePageLoad (blank_page True))))))) = 1
      \<and> message_listeners (settled (fst (handleYouTubePageLoad (fst (handleYouTubePageLoad (blank_page True)))))) = 1"
    using at_blank h by blast
  have r1: "panels (createChatPanel ((blank_page True)\<lparr>panels := [?old]\<rparr>)) =
      [\<lparr>shown = True, panel_messages = []\<rparr>]"
  proof -
    have i: "items (storage (blank_page True)) (content_key (currentVideoId (blank_page True))) = None"
      using h by simp
    from at_blank have "items (storage (blank_page True)) (content_key (currentVideoId (blank_page True))) = None \<longrightarrow>
        panels (createChatPanel ((blank_page True)\<lparr>panels := [?old]\<rparr>)) = [\<lparr>shown = True, panel_messages = []\<rparr>]"
      by (elim conjE)
    then show ?thesis using i by (rule mp)
  qed
  have r2: "panels (content_js ((blank_page True)\<lparr>panels := [?old]\<rparr>)) =
      panels (content_js ((blank_page True)\<lparr>panels := []\<rparr>))"
  proof -
    have i: "''YouTubeRAGAssistantLoaded'' \<notin> window_flags (blank_page True) \<and> \<not> loading (blank_page True)"
      using h by simp
    from at_blank have "''YouTubeRAGAssistantLoaded'' \<notin> window_flags (blank_page True) \<and> \<not> loading (blank_page True) \<longrightarrow>
        panels (content_js ((blank_page True)\<lparr>panels := [?old]\<rparr>)) =
        panels (content_js ((blank_page True)\<lparr>panels := []\<rparr>))"
      by (elim conjE)
    then show ?thesis using i by (rule mp)
  qed
  show ?thesis using n c1 c2 r1 r2 k by simp
qed

text \<open>
  Claim C7 as stated fails where the script has run before.  The user has closed the
  panel of a watch page: the flag is still set, so two further executions of the script,
  and two further calls of the injection procedure of the service, leave the document
  without any panel.
\<close>

theorem closed_panel_injection_counterexample:
  "panels (settled (content_js (content_js closed_page))) = []
   \<and> panels (settled (fst (handleYouTubePageLoad (fst (handleYouTubePageLoad closed_page))))) = []"
proof -
  have f: "panels closed_page = [] \<and> ''YouTubeRAGAssistantLoaded'' \<in> window_flags closed_page
      \<and> scriptable closed_page \<and> \<not> loading closed_page"
    by (simp add: closed_page_def close_panel_def content_js_def constructor_def init_def
        setup_assistant_def createChatPanel_def loadConversationHistory_def content_key_def
        blank_page_def new_document_def Let_def)
  have c: "content_js closed_page = closed_page"
    using f by (simp add: content_js_def)
  have s: "settled closed_page = closed_page"
    using f by (simp add: settled_def)
  have h: "fst (handleYouTubePageLoad closed_page) = closed_page\<lparr>stylesheets := stylesheets closed_page + 1\<rparr>"
    using f c by (simp add: handleYouTubePageLoad_def Let_def)
  have c2: "content_js (closed_page\<lparr>stylesheets := stylesheets closed_page + 1\<rparr>) =
      closed_page\<lparr>stylesheets := stylesheets closed_page + 1\<rparr>"
    using f by (simp add: content_js_def)
  have h2: "fst (handleYouTubePageLoad (closed_page\<lparr>stylesheets := stylesheets closed_page + 1\<rparr>)) =
      closed_page\<lparr>stylesheets := stylesheets closed_page + 1 + 1\<rparr>"
    using f c2 by (simp add: handleYouTubePageLoad_def Let_def)
  have t: "fst (handleYouTubePageLoad (fst (handleYouTubePageLoad closed_page))) =
      closed_page\<lparr>stylesheets := stylesheets closed_page + 1 + 1\<rparr>"
    unfolding h h2 by (rule refl)
  have a: "panels (settled (content_js (content_js closed_page))) = []"
    unfolding c s using f by blast
  have b: "panels (settled (fst (handleYouTubePageLoad (fst (handleYouTubePageLoad closed_page))))) = []"
    unfolding t using f by (simp add: settled_def)
  show ?thesis using a b by blast
qed

lemma show_first_flags [simp]: "window_flags (show_first p) = window_flags p"
  by (simp add: show_first_def split: list.splits)

lemma togglePanel_flags [simp]: "window_flags (togglePanel p) = window_flags p"
  by (simp add: togglePanel_def split: list.splits)

lemma processCurrentVideo_flags [simp]: "window_flags (processCurrentVideo p) = window_flags p"
  by (simp add: processCurrentVideo_def split: option.splits)

lemma content_onMessage_flags [simp]: "window_flags (snd (content_onMessage p a)) = window_flags p"
  by (simp add: content_onMessage_def)

lemma handleVideoChange_flags [simp]: "window_flags (handleVideoChange p) = window_flags p"
  by (simp add: handleVideoChange_def Let_def)

lemma spa_navigate_flags [simp]: "window_flags (spa_navigate p onv v) = window_flags p"
  by (simp add: spa_navigate_def Let_def)

lemma close_panel_flags [simp]: "window_flags (close_panel p) = window_flags p"
  by (simp add: close_panel_def)

lemma append_entry_flags [simp]: "window_flags (append_entry p e) = window_flags p"
  by (simp add: append_entry_def saveConversationHistory_def)

lemma funpow_setup_flags [simp]: "window_flags ((setup_assistant ^^ n) p) = window_flags p"
  by (induction n) simp_all

lemma settled_flags [simp]: "window_flags (settled p) = window_flags p"
  by (simp add: settled_def DOMContentLoaded_def)

lemma page_load_flags:
  "window_flags (fst (handleYouTubePageLoad p)) \<subseteq> insert ''YouTubeRAGAssistantLoaded'' (window_flags p)"
  by (auto simp: handleYouTubePageLoad_def Let_def)

lemma ensure_flags:
  "window_flags (fst (ensureContentScriptInjected p)) \<subseteq> insert ''YouTubeRAGAssistantLoaded'' (window_flags p)"
  using page_load_flags [of p]
  by (auto simp: ensureContentScriptInjected_def split: prod.splits)

lemma send_flags:
  "tabs_sendMessage p a = Some (r, p') \<Longrightarrow> window_flags p' = window_flags p"
proof -
  assume "tabs_sendMessage p a = Some (r, p')"
  then have "p' = snd (content_onMessage p a)"
    by (cases "content_onMessage p a") (simp add: tabs_sendMessage_def split: if_splits)
  then show ?thesis by simp
qed

lemma toggle_flags:
  "window_flags (fst (toggleChatPanel p)) \<subseteq> insert ''YouTubeRAGAssistantLoaded'' (window_flags p)"
proof -
  obtain p1 l1 where e: "ensureContentScriptInjected p = (p1, l1)" by force
  obtain p3 l3 where h: "handleYouTubePageLoad p1 = (p3, l3)" by force
  have f1: "window_flags p1 \<subseteq> insert ''YouTubeRAGAssistantLoaded'' (window_flags p)"
    using ensure_flags [of p] e by simp
  have f3: "window_flags p3 \<subseteq> insert ''YouTubeRAGAssistantLoaded'' (window_flags p1)"
    using page_load_flags [of p1] h by simp
  show ?thesis
    using f1 f3
    by (auto simp: toggleChatPanel_def e h Let_def split: option.splits dest!: send_flags)
qed

lemma apply_op_flags:
  "window_flags (apply_op p x) \<subseteq> insert ''YouTubeRAGAssistantLoaded'' (window_flags p)"
proof (cases x)
  case (Receive a)
  then show ?thesis by (auto split: option.splits dest!: send_flags)
next
  case PageLoad
  then show ?thesis using page_load_flags [of p] by simp
next
  case Toggle
  then show ?thesis using toggle_flags [of p] by simp
next
  case (LoadDocument sc onv v ld)
  then show ?thesis by (simp add: new_document_def)
qed auto

lemma run_ops_flags:
  "window_flags (run_ops p ops) \<subseteq> insert ''YouTubeRAGAssistantLoaded'' (window_flags p)"
  unfolding run_ops_def
proof (induction ops arbitrary: p)
  case Nil then show ?case by auto
next
  case (Cons x xs)
  show ?case using Cons.IH [of "apply_op p x"] apply_op_flags [of p x] by auto
qed

text \<open>
  Claim C10 (the probe of \<open>ensureContentScriptInjected\<close>), as the code has it.  Nothing
  that happens to a page sets \<open>window.YouTubeRAGAssistantInitialized\<close>: absent at the
  start, it is absent after every sequence of page events, and a new document starts
  without it.  So whenever the probe can be executed it reports that the script is not
  initialized, and \<open>ensureContentScriptInjected\<close> goes on to call
  \<open>handleYouTubePageLoad\<close>.  When the probe itself is rejected (the tab cannot be
  scripted), the error is caught and \<open>handleYouTubePageLoad\<close> is not called.
\<close>

theorem initialized_flag_never_set:
  "(''YouTubeRAGAssistantInitialized'' \<notin> window_flags p \<longrightarrow>
      ''YouTubeRAGAssistantInitialized'' \<notin> window_flags (run_ops p ops))
   \<and> ''YouTubeRAGAssistantInitialized'' \<notin> window_flags (run_ops (new_document sc onv v ld st) ops)
   \<and> (scriptable p \<and> ''YouTubeRAGAssistantInitialized'' \<notin> window_flags p \<longrightarrow>
        fst (ensureContentScriptInjected p) = fst (handleYouTubePageLoad p)
        \<and> snd (ensureContentScriptInjected p) =
            [ExecuteProbe ''YouTubeRAGAssistantInitialized'', Console LogNotInitialized]
            @ snd (handleYouTubePageLoad p)
        \<and> PageLoadCall \<in> set (snd (ensureContentScriptInjected p)))
   \<and> (\<not> scriptable p \<longrightarrow>
        ensureContentScriptInjected p =
          (p, [ExecuteProbe ''YouTubeRAGAssistantInitialized'', Console ErrorProbe]))"
proof -
  have a: "''YouTubeRAGAssistantInitialized'' \<notin> window_flags (run_ops q ops)"
    if "''YouTubeRAGAssistantInitialized'' \<notin> window_flags q" for q
    using run_ops_flags [of q ops] that by auto
  have b: "''YouTubeRAGAssistantInitialized'' \<notin> window_flags (new_document sc onv v ld st)"
    by (simp add: new_document_def)
  have c: "fst (ensureContentScriptInjected p) = fst (handleYouTubePageLoad p)
        \<and> snd (ensureContentScriptInjected p) =
            [ExecuteProbe ''YouTubeRAGAssistantInitialized'', Console LogNotInitialized]
            @ snd (handleYouTubePageLoad p)
        \<and> PageLoadCall \<in> set (snd (ensureContentScriptInjected p))"
    if "scriptable p" "''YouTubeRAGAssistantInitialized'' \<notin> window_flags p"
    using that by (auto simp: ensureContentScriptInjected_def handleYouTubePageLoad_def Let_def split: prod.splits)
  have d: "ensureContentScriptInjected p =
          (p, [ExecuteProbe ''YouTubeRAGAssistantInitialized'', Console ErrorProbe])"
    if "\<not> scriptable p"
    using that by (simp add: ensureContentScriptInjected_def)
  show ?thesis using a [of p] a [OF b] c d by blast
qed

text \<open>
  The theorem at a freshly loaded watch page and five events, and at a tab that cannot be
  scripted.
\<close>

theorem initialized_flag_never_set_witness:
  "''YouTubeRAGAssistantInitialized'' \<notin>
      window_flags (run_ops (blank_page True) [PageLoad, Toggle, ClosePanel, Toggle, RunContentScript])
   \<and> PageLoadCall \<in> set (snd (ensureContentScriptInjected (blank_page True)))
   \<and> ensureContentScriptInjected (blank_page False) =
       (blank_page False, [ExecuteProbe ''YouTubeRAGAssistantInitialized'', Console ErrorProbe])"
proof -
  have h: "''YouTubeRAGAssistantInitialized'' \<notin> window_flags (blank_page True)
      \<and> scriptable (blank_page True) \<and> \<not> scriptable (blank_page False)"
    by (simp add: blank_page_def new_document_def)
  show ?thesis
    using h
      initialized_flag_never_set [of "blank_page True" "[PageLoad, Toggle, ClosePanel, Toggle, RunContentScript]"]
      initialized_flag_never_set [of "blank_page False"]
    by blast
qed

text \<open>
  Claim C10 as stated fails on a tab that cannot be scripted: the call of
  \<open>ensureContentScriptInjected\<close> does not reach \<open>handleYouTubePageLoad\<close>.
\<close>

theorem probe_failure_skips_injection_counterexample:
  "snd (ensureContentScriptInjected (blank_page False)) =
     [ExecuteProbe ''YouTubeRAGAssistantInitialized'', Console ErrorProbe]
   \<and> PageLoadCall \<notin> set (snd (ensureContentScriptInjected (blank_page False)))"
  by (simp add: ensureContentScriptInjected_def blank_page_def new_document_def)

lemma append_entry_fields [simp]:
  "currentVideoId (append_entry p e) = currentVideoId p"
  "conversationHistory (append_entry p e) = conversationHistory p @ [e]"
  "full (storage (append_entry p e)) = full (storage p)"
  by (simp_all add: append_entry_def saveConversationHistory_def)

lemma append_entry_saved:
  "\<not> full (storage p) \<Longrightarrow>
   items (storage (append_entry p e)) (content_key (currentVideoId p)) =
     Some (Json (conversationHistory p @ [e]))"
  by (simp add: append_entry_def saveConversationHistory_def)

lemma append_entry_other_keys:
  "k \<noteq> content_key (currentVideoId p) \<Longrightarrow>
   items (storage (append_entry p e)) k = items (storage p) k"
  by (simp add: append_entry_def saveConversationHistory_def)

lemma foldl_append_entry_fields:
  "currentVideoId (foldl append_entry p es) = currentVideoId p
   \<and> conversationHistory (foldl append_entry p es) = conversationHistory p @ es
   \<and> full (storage (foldl append_entry p es)) = full (storage p)"
  by (induction es arbitrary: p) simp_all

lemma foldl_append_entry_saved:
  assumes "\<not> full (storage p)" and "es \<noteq> []"
  shows "items (storage (foldl append_entry p es)) (content_key (currentVideoId p)) =
           Some (Json (conversationHistory p @ es))"
proof -
  obtain es' e where es: "es = es' @ [e]" using assms(2) by (metis append_butlast_last_id)
  let ?q = "foldl append_entry p es'"
  have q: "currentVideoId ?q = currentVideoId p"
      "conversationHistory ?q = conversationHistory p @ es'"
      "\<not> full (storage ?q)"
    using foldl_append_entry_fields [of p es'] assms(1) by simp_all
  show ?thesis using append_entry_saved [OF q(3), of e] q by (simp add: es)
qed

lemma load_saved:
  "items (storage q) (content_key (currentVideoId q)) = Some (Json h) \<Longrightarrow>
   conversationHistory (loadConversationHistory q) = h"
  by (simp add: loadConversationHistory_def)

lemma content_key_inject: "content_key (Some v) = content_key (Some v') \<Longrightarrow> v = v'"
  by (simp add: content_key_def)

text \<open>
  Claim C6 (round trip), as the code has it.  The content script appends and loads in
  the \<open>localStorage\<close> of the page: after a non-empty sequence of appends for a video,
  with storage that accepts the write, a load for the same video (by the same or a later
  instance on the same storage) returns the history before the appends followed by the
  appended entries in order.  The service clears and loads in \<open>chrome.storage.local\<close>:
  after a clear for a video, its load for that video returns the empty sequence.
\<close>

theorem conversation_round_trip_per_store:
  "(\<not> full (storage p) \<and> es \<noteq> [] \<and> storage q = storage (foldl append_entry p es)
      \<and> currentVideoId q = currentVideoId p \<longrightarrow>
      conversationHistory (loadConversationHistory q) = conversationHistory p @ es)
   \<and> (storage_fault en = None \<longrightarrow>
        (\<exists>w'. clearConversationHistory en w vid = Inr w'
             \<and> getConversationHistory en w' vid = Inr (SuccessData (HistoryOf []))))"
proof -
  have a: "conversationHistory (loadConversationHistory q) = conversationHistory p @ es"
    if "\<not> full (storage p)" "es \<noteq> []" "storage q = storage (foldl append_entry p es)"
       "currentVideoId q = currentVideoId p"
    using foldl_append_entry_saved [of p es] that by (simp add: load_saved)
  have b: "\<exists>w'. clearConversationHistory en w vid = Inr w'
             \<and> getConversationHistory en w' vid = Inr (SuccessData (HistoryOf []))"
    if "storage_fault en = None"
    using that by (simp add: clearConversationHistory_def getConversationHistory_def)
  show ?thesis using a b by blast
qed

text \<open>
  The theorem at two entries appended on a freshly loaded watch page, and at a clear for
  the video \<open>abc123\<close>.
\<close>

theorem conversation_round_trip_per_store_witness:
  "conversationHistory (loadConversationHistory
      (foldl append_entry (content_js (blank_page True)) [sample_entry, sample_entry\<lparr>answer := ''Again.''\<rparr>])) =
     [sample_entry, sample_entry\<lparr>answer := ''Again.''\<rparr>]
   \<and> (\<exists>w'. clearConversationHistory offline_env (blank_world True) (Some ''abc123'') = Inr w'
          \<and> getConversationHistory offline_env w' (Some ''abc123'') = Inr (SuccessData (HistoryOf [])))"
proof -
  have h: "\<not> full (storage (content_js (blank_page True)))"
    by (simp add: content_js_def blank_page_def new_document_def)
  have c: "conversationHistory (content_js (blank_page True)) = []"
    by (simp add: content_js_def constructor_def init_def setup_assistant_def createChatPanel_def
        loadConversationHistory_def content_key_def blank_page_def new_document_def Let_def)
  have f: "storage_fault offline_env = None" by (simp add: offline_env_def)
  show ?thesis
    using h c f
      conversation_round_trip_per_store [of "content_js (blank_page True)"
        "[sample_entry, sample_entry\<lparr>answer := ''Again.''\<rparr>]"
        "foldl append_entry (content_js (blank_page True)) [sample_entry, sample_entry\<lparr>answer := ''Again.''\<rparr>]"
        offline_env "blank_world True" "Some ''abc123''"]
    by simp
qed

lemma clear_keeps_tabs:
  "action req = ''clearConversationHistory'' \<Longrightarrow> tabs (handleMessage en w req sender) = tabs w"
  by (simp add: handleMessage_def dispatch_def clearConversationHistory_def respond_def
      split: option.splits)

lemma watching_page:
  "currentVideoId (content_js (blank_page True)) = Some ''abc123''
   \<and> conversationHistory (content_js (blank_page True)) = []
   \<and> \<not> full (storage (content_js (blank_page True)))"
  by (simp add: content_js_def constructor_def init_def setup_assistant_def createChatPanel_def
      loadConversationHistory_def content_key_def blank_page_def new_document_def Let_def)

text \<open>
  Claim C6 as stated fails when append, load and clear are read as operations of one
  store.  A tab shows the video \<open>abc123\<close> and its content script has appended one
  entry.  The load of the service for \<open>abc123\<close> returns the empty sequence, not the
  entry; and after the clear of the service for \<open>abc123\<close>, the load of the content
  script still returns the entry, not the empty sequence.
\<close>

theorem conversation_round_trip_counterexample:
  "currentVideoId (tabs watching_world 1) = Some ''abc123''
   \<and> conversationHistory (tabs watching_world 1) = [sample_entry]
   \<and> getConversationHistory offline_env watching_world (Some ''abc123'') =
       Inr (SuccessData (HistoryOf []))
   \<and> conversationHistory (loadConversationHistory
       (tabs (handleMessage offline_env watching_world
                ((bare_request ''clearConversationHistory'')\<lparr>videoId := Some ''abc123''\<rparr>) None) 1)) =
       [sample_entry]"
proof -
  let ?p = "append_entry (content_js (blank_page True)) sample_entry"
  have t: "tabs watching_world 1 = ?p" by (simp add: watching_world_def)
  have a: "currentVideoId ?p = Some ''abc123''" and b: "conversationHistory ?p = [sample_entry]"
    using watching_page by simp_all
  have g: "getConversationHistory offline_env watching_world (Some ''abc123'') =
       Inr (SuccessData (HistoryOf []))"
    by (simp add: getConversationHistory_def offline_env_def watching_world_def blank_world_def)
  have k: "tabs (handleMessage offline_env watching_world
                ((bare_request ''clearConversationHistory'')\<lparr>videoId := Some ''abc123''\<rparr>) None) = tabs watching_world"
    by (rule clear_keeps_tabs) (simp add: bare_request_def)
  have s: "items (storage ?p) (content_key (currentVideoId ?p)) = Some (Json [sample_entry])"
    using append_entry_saved [of "content_js (blank_page True)" sample_entry] watching_page by simp
  have l: "conversationHistory (loadConversationHistory ?p) = [sample_entry]"
    using s by (rule load_saved)
  show ?thesis using t a b g k l by simp
qed

lemma keys_differ: "coordinator_key v \<noteq> content_key v'"
  by (simp add: coordinator_key_def content_key_def)

lemma tabs_irrelevant_for_history:
  "getConversationHistory en (w\<lparr>tabs := T\<rparr>) vid = getConversationHistory en w vid"
  by (simp add: getConversationHistory_def split: option.splits)

text \<open>
  Claim C9 (disjoint conversation state).  The key of the service for a video is never
  the key of the content script for any video, and an append of the content script leaves
  the item under the service's key alone.  A \<open>clearConversationHistory\<close> request leaves
  every page as it was, so the content script loads the same history afterwards.  No
  sequence of events in a tab, appends included, changes \<open>chrome.storage.local\<close> or
  what the service answers to \<open>getConversationHistory\<close>.
\<close>

theorem conversation_stores_disjoint:
  "coordinator_key vid \<noteq> content_key vid'
   \<and> items (storage (append_entry p e)) (coordinator_key vid) = items (storage p) (coordinator_key vid)
   \<and> tabs (handleMessage en w (req\<lparr>action := ''clearConversationHistory''\<rparr>) sender) = tabs w
   \<and> loadConversationHistory
        (tabs (handleMessage en w (req\<lparr>action := ''clearConversationHistory''\<rparr>) sender) tid) =
      loadConversationHistory (tabs w tid)
   \<and> local_items (w\<lparr>tabs := (tabs w)(tid := run_ops (tabs w tid) ops)\<rparr>) = local_items w
   \<and> getConversationHistory en (w\<lparr>tabs := (tabs w)(tid := run_ops (tabs w tid) ops)\<rparr>) vid =
      getConversationHistory en w vid
   \<and> responses (trace (handleMessage en (w\<lparr>tabs := (tabs w)(tid := run_ops (tabs w tid) ops)\<rparr>)
        (req\<lparr>action := ''getConversationHistory''\<rparr>) sender)) =
      responses (trace (handleMessage en w (req\<lparr>action := ''getConversationHistory''\<rparr>) sender))"
proof -
  have k: "tabs (handleMessage en w (req\<lparr>action := ''clearConversationHistory''\<rparr>) sender) = tabs w"
    by (rule clear_keeps_tabs) simp
  have g: "getConversationHistory en (w\<lparr>tabs := (tabs w)(tid := run_ops (tabs w tid) ops)\<rparr>) vid =
      getConversationHistory en w vid"
    by (rule tabs_irrelevant_for_history)
  have r: "responses (trace (handleMessage en (w\<lparr>tabs := (tabs w)(tid := run_ops (tabs w tid) ops)\<rparr>)
        (req\<lparr>action := ''getConversationHistory''\<rparr>) sender)) =
      responses (trace (handleMessage en w (req\<lparr>action := ''getConversationHistory''\<rparr>) sender))"
    by (simp add: handleMessage_def dispatch_def getConversationHistory_def respond_def
        split: option.splits)
  have i: "items (storage (append_entry p e)) (coordinator_key vid) = items (storage p) (coordinator_key vid)"
    by (rule append_entry_other_keys) (rule keys_differ)
  show ?thesis using keys_differ k g r i by simp
qed

text \<open>
  The theorem at the tab that shows \<open>abc123\<close> with one entry appended.
\<close>

theorem conversation_stores_disjoint_witness:
  "conversationHistory (loadConversationHistory
       (tabs (handleMessage offline_env watching_world
                ((bare_request ''ping'')\<lparr>action := ''clearConversationHistory''\<rparr>) None) 1)) =
     conversationHistory (loadConversationHistory (tabs watching_world 1))
   \<and> getConversationHistory offline_env
        (watching_world\<lparr>tabs := (tabs watching_world)
            (1 := run_ops (tabs watching_world 1) [AppendEntry sample_entry])\<rparr>) (Some ''abc123'') =
      getConversationHistory offline_env watching_world (Some ''abc123'')"
  using conversation_stores_disjoint [of "Some ''abc123''" "Some ''abc123''" _ _ offline_env watching_world
      "bare_request ''ping''" None 1 "[AppendEntry sample_entry]"]
  by simp

end
